theory Spec2Isabelle
  imports Main "HOL-Library.Sublist" "HOL-Library.Char_ord" "HOL-Library.List_Lexorder"
begin

section \<open>Errors and the error-handling middleware (src/mcp/middleware.ts)\<close>

text \<open>
  A thrown JavaScript value, reduced to what the middleware reads of it: an error object
  whose \<open>name\<close> and \<open>message\<close> are strings, or \<open>null\<close>, or \<open>undefined\<close>. Reading a
  property of \<open>null\<close> or \<open>undefined\<close> throws a TypeError. Other thrown values are not
  modelled.
\<close>

datatype js_error = JsError (ename: string) (emessage: string) | JsNull | JsUndefined

text \<open>\<open>new Error(m)\<close> and the three custom error classes, which only set \<open>name\<close>.\<close>

definition Error :: "string \<Rightarrow> js_error" where
  "Error m = JsError ''Error'' m"

definition ValidationError :: "string \<Rightarrow> js_error" where
  "ValidationError m = JsError ''ValidationError'' m"

definition NotFoundError :: "string \<Rightarrow> js_error" where
  "NotFoundError m = JsError ''NotFoundError'' m"

definition PermissionError :: "string \<Rightarrow> js_error" where
  "PermissionError m = JsError ''PermissionError'' m"

text \<open>
  What calling a function of type \<open>() => Promise<T>\<close> does: the call throws before a
  promise is returned, or it returns a promise that rejects or resolves. A function of the
  same type gives the same three outcomes to its own caller.
\<close>

datatype 'a invocation = Throws js_error | Rejects js_error | Resolves 'a

text \<open>
  \<open>errorHandlingMiddleware(operation, context)\<close> is \<open>operation().catch(handler)\<close> in a
  function that is not \<open>async\<close>: what \<open>operation()\<close> throws leaves the middleware as
  it is, before \<open>catch\<close> is attached. The handler first logs \<open>error.message\<close> and
  \<open>error.stack\<close>, which throws a TypeError when the promise rejected with \<open>null\<close> or
  \<open>undefined\<close>, and then tests \<open>error.name\<close>. What the handler throws rejects the
  promise the middleware returns. The context is only logged.
\<close>

definition errorHandlingMiddleware :: "'a invocation \<Rightarrow> 'a invocation" where
  "errorHandlingMiddleware operation =
     (case operation of
        Throws error \<Rightarrow> Throws error
      | Resolves result \<Rightarrow> Resolves result
      | Rejects error \<Rightarrow>
          (case error of
             JsNull \<Rightarrow>
               Rejects (JsError ''TypeError'' ''Cannot read properties of null (reading 'message')'')
           | JsUndefined \<Rightarrow>
               Rejects (JsError ''TypeError''
                          ''Cannot read properties of undefined (reading 'message')'')
           | JsError name message \<Rightarrow>
               if name = ''ValidationError''
                 then Rejects (Error (''Invalid request: '' @ message))
               else if name = ''NotFoundError''
                 then Rejects (Error (''Resource not found: '' @ message))
               else if name = ''PermissionError''
                 then Rejects (Error (''Permission denied: '' @ message))
               else Rejects (Error ''Internal server error'')))"

text \<open>
  An \<open>async\<close> arrow function never throws to its caller: what its body throws rejects
  the promise it returns.
\<close>

definition async_closure :: "js_error + 'a \<Rightarrow> 'a invocation" where
  "async_closure body = (case body of Inl error \<Rightarrow> Rejects error | Inr result \<Rightarrow> Resolves result)"

text \<open>
  An \<open>async\<close> method whose body returns a call: the caller of the method receives a
  promise that rejects with what the call threw or rejected with, or resolves with its
  value.
\<close>

definition awaited :: "'a invocation \<Rightarrow> js_error + 'a" where
  "awaited call =
     (case call of
        Throws error \<Rightarrow> Inl error
      | Rejects error \<Rightarrow> Inl error
      | Resolves result \<Rightarrow> Inr result)"

section \<open>The rate limiter (src/mcp/middleware.ts)\<close>

record RateLimiter =
  requests :: "string \<rightharpoonup> int list"
  maxRequests :: int
  windowMs :: int

text \<open>\<open>new RateLimiter(maxRequests, windowMs)\<close>: an empty per-caller map.\<close>

definition new_RateLimiter :: "int \<Rightarrow> int \<Rightarrow> RateLimiter" where
  "new_RateLimiter m w = \<lparr>requests = Map.empty, maxRequests = m, windowMs = w\<rparr>"

text \<open>
  \<open>checkLimit(clientId)\<close>, with the value \<open>now\<close> read from \<open>Date.now()\<close> made an
  argument. It returns the verdict and the limiter after the call.
\<close>

definition checkLimit :: "int \<Rightarrow> string \<Rightarrow> RateLimiter \<Rightarrow> bool \<times> RateLimiter" where
  "checkLimit now clientId rl =
     (let clientRequests = (case requests rl clientId of Some ts \<Rightarrow> ts | None \<Rightarrow> []);
          validRequests = filter (\<lambda>timestamp. now - timestamp < windowMs rl) clientRequests
      in if int (length validRequests) \<ge> maxRequests rl
           then (False, rl)
           else (True, rl\<lparr>requests := (requests rl)(clientId \<mapsto> validRequests @ [now])\<rparr>))"

section \<open>Host string and path functions\<close>

text \<open>
  JavaScript strings are modelled as \<open>string\<close>. The functions below are the library calls
  the sources make: \<open>String.prototype.startsWith\<close>, \<open>includes\<close>, \<open>split\<close>,
  \<open>Array.prototype.join\<close> and \<open>path.extname\<close>. \<open>String.prototype.toLowerCase\<close> is a
  parameter of the model (see the environment below); \<open>ascii_toLowerCase\<close> is what it does
  on ASCII text.
\<close>

definition startsWith :: "string \<Rightarrow> string \<Rightarrow> bool" where
  "startsWith s p = prefix p s"

fun includes_str :: "string \<Rightarrow> string \<Rightarrow> bool" where
  "includes_str [] q = (q = [])"
| "includes_str (c # cs) q = (prefix q (c # cs) \<or> includes_str cs q)"

fun split_on :: "char \<Rightarrow> string \<Rightarrow> string list" where
  "split_on sep [] = [[]]"
| "split_on sep (c # cs) =
     (if c = sep then [] # split_on sep cs
      else (case split_on sep cs of
              w # ws \<Rightarrow> (c # w) # ws
            | [] \<Rightarrow> [[c]]))"

fun join_with :: "string \<Rightarrow> string list \<Rightarrow> string" where
  "join_with sep [] = []"
| "join_with sep [x] = x"
| "join_with sep (x # y # ys) = x @ sep @ join_with sep (y # ys)"

definition lower_char :: "char \<Rightarrow> char" where
  "lower_char c =
     (if (65::nat) \<le> of_char c \<and> of_char c \<le> (90::nat)
      then char_of (of_char c + (32::nat)) else c)"

definition ascii_toLowerCase :: "string \<Rightarrow> string" where
  "ascii_toLowerCase s = map lower_char s"

text \<open>
  \<open>path.extname\<close> (POSIX): take the last component of the path, trailing slashes
  ignored; the extension runs from its last dot to its end, and is empty when there is no
  dot, when the only dot is the first character, or when the component is \<open>..\<close>.
\<close>

definition last_component :: "string \<Rightarrow> string" where
  "last_component p =
     rev (takeWhile (\<lambda>c. c \<noteq> CHR ''/'') (dropWhile (\<lambda>c. c = CHR ''/'') (rev p)))"

definition extname :: "string \<Rightarrow> string" where
  "extname p =
     (let b = last_component p;
          ext = rev (takeWhile (\<lambda>c. c \<noteq> CHR ''.'') (rev b))
      in if CHR ''.'' \<notin> set b then []
         else if length ext + 1 = length b then []
         else if b = ''..'' then []
         else CHR ''.'' # ext)"

text \<open>
  The skip rule shared by the tree walks: hidden entries other than those whose name
  starts with \<open>.git\<close>, and the fixed set of build and dependency directories.
\<close>

definition hidden_entry :: "string \<Rightarrow> bool" where
  "hidden_entry name = (startsWith name ''.'' \<and> \<not> startsWith name ''.git'')"

definition skip_dirs :: "string list" where
  "skip_dirs = [''node_modules'', ''dist'', ''build'', ''coverage'']"

section \<open>The file system as the code sees it\<close>

text \<open>
  \<open>fs.Stats\<close>, reduced to what is read from it. The modification time is given in
  milliseconds since the epoch; \<open>stats.mtime\<close> is the \<open>Date\<close> made of it, which is an
  invalid date when the time lies outside the range a \<open>Date\<close> can hold.
\<close>

datatype Stats = Stats (isDirectory: bool) (isFile: bool) (st_size: nat) (mtime: int)

definition valid_date :: "int \<Rightarrow> bool" where
  "valid_date ms = (- 8640000000000000 \<le> ms \<and> ms \<le> 8640000000000000)"

text \<open>
  \<open>Date.prototype.toISOString\<close> throws a RangeError on an invalid date. The string it
  returns otherwise is kept as the time it renders.
\<close>

definition toISOString :: "int \<Rightarrow> js_error + int" where
  "toISOString ms =
     (if valid_date ms then Inr ms else Inl (JsError ''RangeError'' ''Invalid time value''))"

text \<open>The type a \<open>Dirent\<close> reports; a symbolic link, socket or device is neither.\<close>

datatype dirent_kind = DirentFile | DirentDirectory | DirentOther

text \<open>
  One entry of the tree under the project path: its name as \<open>readdir\<close> lists it, the type
  its \<open>Dirent\<close> reports, and the outcome of each call the code makes on its path:
  \<open>fs.stat\<close>, \<open>fs.readFile(_, 'utf-8')\<close> and \<open>fs.readdir\<close>. A call that rejects is
  \<open>Inl\<close> of the error. \<open>readdir\<close> rejects when \<open>readdir_error\<close> is set, and otherwise
  lists \<open>dir_entries\<close> in that order.
\<close>

datatype fsnode = FsNode
  (entry_name: string)
  (entry_kind: dirent_kind)
  (fs_stat: "js_error + Stats")
  (fs_readFile: "js_error + string")
  (readdir_error: "js_error option")
  (dir_entries: "fsnode list")

definition fs_readdir :: "fsnode \<Rightarrow> js_error + fsnode list" where
  "fs_readdir n = (case readdir_error n of Some e \<Rightarrow> Inl e | None \<Rightarrow> Inr (dir_entries n))"

text \<open>
  A parsed package manifest: the two dependency maps as lists of name and version in key
  order, each absent when the manifest has no such key, and the three descriptive fields.
\<close>

record manifest =
  pkg_name :: "string option"
  pkg_version :: "string option"
  pkg_description :: "string option"
  dependencies :: "(string \<times> string) list option"
  devDependencies :: "(string \<times> string) list option"

text \<open>
  What a request runs against: the configured project path, the entry at that path, the
  entry found at \<open>join(projectPath, p)\<close> for a relative path \<open>p\<close> (\<open>None\<close> when nothing
  is there, so that \<open>fs.access\<close> and \<open>fs.stat\<close> reject), the outcome of reading and parsing
  \<open>package.json\<close>, the host's \<open>String.prototype.localeCompare\<close>, whose order depends
  on the runtime's locale data and is therefore left open, \<open>String.prototype.toLowerCase\<close>,
  the Unicode case folding, left open as well, and the clock: \<open>date_now 0\<close> and
  \<open>date_now 1\<close> are what \<open>Date.now()\<close> returns when a search starts and when it ends.
\<close>

record environment =
  projectPath :: string
  root :: fsnode
  lookup :: "string \<Rightarrow> fsnode option"
  packageJson :: "js_error + manifest"
  localeCompare :: "string \<Rightarrow> string \<Rightarrow> int"
  toLowerCase :: "string \<Rightarrow> string"
  date_now :: "nat \<Rightarrow> int"

section \<open>The project structure tree (src/mcp/resources.ts)\<close>

datatype node_type = Directory | File

datatype ProjectStructure = ProjectStructure
  (ps_path: string)
  (ps_type: node_type)
  (ps_name: string)
  (ps_extension: "string option")
  (ps_size: "nat option")
  (ps_children: "ProjectStructure list option")
  (ps_lastModified: int)

text \<open>
  \<open>Array.prototype.sort(compare)\<close>. The sort is stable; for a comparator that is a total
  preorder the result is the stable sorted arrangement, which insertion from the right
  computes.
\<close>

fun insert_by :: "('a \<Rightarrow> 'a \<Rightarrow> int) \<Rightarrow> 'a \<Rightarrow> 'a list \<Rightarrow> 'a list" where
  "insert_by compare x [] = [x]"
| "insert_by compare x (y # ys) =
     (if compare x y \<le> 0 then x # y # ys else y # insert_by compare x ys)"

definition array_sort :: "('a \<Rightarrow> 'a \<Rightarrow> int) \<Rightarrow> 'a list \<Rightarrow> 'a list" where
  "array_sort compare xs = foldr (insert_by compare) xs []"

text \<open>The comparator of \<open>buildFileTree\<close>: directories first, then \<open>localeCompare\<close> of the names.\<close>

definition compare_nodes :: "(string \<Rightarrow> string \<Rightarrow> int) \<Rightarrow> ProjectStructure \<Rightarrow> ProjectStructure \<Rightarrow> int" where
  "compare_nodes lc a b =
     (if ps_type a \<noteq> ps_type b then (if ps_type a = Directory then -1 else 1)
      else lc (ps_name a) (ps_name b))"

text \<open>
  \<open>buildFileTree(currentPath, basePath, context)\<close>. The current path is given by the
  names \<open>rel\<close> that lead from the base path to the entry, so that
  \<open>relative(basePath, currentPath)\<close> is those names joined by slashes.

  The call fails when \<open>fs.stat\<close> rejects and when \<open>stats.mtime.toISOString()\<close> throws
  while the node is built; neither is inside a \<open>try\<close> block of the call itself.

  \<open>buildChildren\<close> is the \<open>for\<close> loop over the directory's entries: it returns the children
  pushed so far and, when the call for a child threw, that error. The \<open>try\<close> block around
  \<open>readdir\<close>, the loop and the sort catches it, so the children pushed before the failure
  stay in place, unsorted.
\<close>

fun buildFileTree :: "(string \<Rightarrow> string \<Rightarrow> int) \<Rightarrow> string \<Rightarrow> string list \<Rightarrow> fsnode \<Rightarrow> js_error + ProjectStructure"
  and buildChildren :: "(string \<Rightarrow> string \<Rightarrow> int) \<Rightarrow> string \<Rightarrow> string list \<Rightarrow> fsnode list
      \<Rightarrow> ProjectStructure list \<Rightarrow> ProjectStructure list \<times> js_error option"
where
  "buildFileTree lc basePath rel (FsNode nm kind st rd rerr entries) =
     (case st of
        Inl e \<Rightarrow> Inl e
      | Inr stats \<Rightarrow>
          (case toISOString (mtime stats) of
             Inl e \<Rightarrow> Inl e
           | Inr lastModified \<Rightarrow>
               (let relativePath = join_with ''/'' rel;
                    currentPath = (if rel = [] then basePath else basePath @ ''/'' @ relativePath);
                    name = (if relativePath \<noteq> [] then relativePath
                            else last (split_on CHR ''/'' currentPath));
                    node = ProjectStructure relativePath
                             (if isDirectory stats then Directory else File)
                             name None None None lastModified
                in if isFile stats then
                     Inr (ProjectStructure relativePath (ps_type node) name
                            (Some (extname name)) (Some (st_size stats)) None lastModified)
                   else if isDirectory stats then
                     (case rerr of
                        Some e \<Rightarrow> Inr node
                      | None \<Rightarrow>
                          (case buildChildren lc basePath rel entries [] of
                             (children, Some e) \<Rightarrow>
                               Inr (ProjectStructure relativePath (ps_type node) name
                                      None None (Some children) lastModified)
                           | (children, None) \<Rightarrow>
                               Inr (ProjectStructure relativePath (ps_type node) name
                                      None None (Some (array_sort (compare_nodes lc) children))
                                      lastModified)))
                   else Inr node)))"
| "buildChildren lc basePath rel [] children = (children, None)"
| "buildChildren lc basePath rel (entry # rest) children =
     (if hidden_entry (entry_name entry) then buildChildren lc basePath rel rest children
      else if entry_name entry \<in> set skip_dirs then buildChildren lc basePath rel rest children
      else (case buildFileTree lc basePath (rel @ [entry_name entry]) entry of
              Inl e \<Rightarrow> (children, Some e)
            | Inr child \<Rightarrow> buildChildren lc basePath rel rest (children @ [child])))"

section \<open>The resource provider (src/mcp/resources.ts)\<close>

record ProjectOverview =
  po_name :: string
  po_version :: string
  po_description :: string
  po_path :: string
  po_language :: string
  po_framework :: "string option"
  po_packageManager :: string
  po_lastModified :: int
  fileCount :: nat
  sizeInBytes :: nat
  gitRepository :: "string option"
  gitBranch :: "string option"

datatype dependency_type = production | development | optional | peer

record Dependency =
  dep_name :: string
  dep_version :: string
  requestedVersion :: string
  dep_type :: dependency_type

record ProjectDependencies =
  pd_packageManager :: string
  pd_dependencies :: "Dependency list"
  pd_devDependencies :: "Dependency list"
  totalCount :: nat
  lockFileExists :: bool

text \<open>
  The body of a resource. The code returns \<open>JSON.stringify\<close> of the first three as the
  text; the model keeps the value that is rendered.
\<close>

datatype resource_body =
    OverviewBody ProjectOverview
  | StructureBody ProjectStructure
  | DependenciesBody ProjectDependencies
  | TextBody string

record resource_content =
  rc_uri :: string
  mimeType :: string
  body :: resource_body

text \<open>\<open>a || b\<close> on an optional string: the empty string and \<open>undefined\<close> are falsy.\<close>

definition or_else :: "string option \<Rightarrow> string \<Rightarrow> string" where
  "or_else v d = (case v of Some s \<Rightarrow> (if s = [] then d else s) | None \<Rightarrow> d)"

subsection \<open>Project statistics\<close>

text \<open>
  \<open>getProjectStats\<close>: \<open>countFiles\<close> on a directory, with the three counters passed through.
  A \<open>stat\<close> that rejects inside the loop ends the loop of that directory only, after the
  file has been counted. An invalid date compares greater than no date, so the latest
  modification time stays a valid one, which \<open>toISOString\<close> renders at the end.
\<close>

fun countFiles :: "fsnode \<Rightarrow> nat \<times> nat \<times> int \<Rightarrow> nat \<times> nat \<times> int"
  and countFiles_entries :: "fsnode list \<Rightarrow> nat \<times> nat \<times> int \<Rightarrow> nat \<times> nat \<times> int"
where
  "countFiles (FsNode nm kind st rd rerr entries) acc =
     (case rerr of Some e \<Rightarrow> acc | None \<Rightarrow> countFiles_entries entries acc)"
| "countFiles_entries [] acc = acc"
| "countFiles_entries (entry # rest) acc =
     (if hidden_entry (entry_name entry) then countFiles_entries rest acc
      else if entry_kind entry = DirentDirectory then
        (if entry_name entry \<notin> set skip_dirs
         then countFiles_entries rest (countFiles entry acc)
         else countFiles_entries rest acc)
      else (case acc of (count, bytes, lastModified) \<Rightarrow>
              (case fs_stat entry of
                 Inl e \<Rightarrow> (count + 1, bytes, lastModified)
               | Inr stats \<Rightarrow>
                   countFiles_entries rest
                     (count + 1, bytes + st_size stats,
                      (if valid_date (mtime stats) \<and> mtime stats > lastModified
                       then mtime stats else lastModified)))))"

definition getProjectStats :: "fsnode \<Rightarrow> nat \<times> nat \<times> int" where
  "getProjectStats project = countFiles project (0, 0, 0)"

subsection \<open>Technology detection\<close>

definition languageMap :: "(string \<times> string) list" where
  "languageMap =
     [(''.ts'', ''TypeScript''), (''.js'', ''JavaScript''), (''.py'', ''Python''),
      (''.java'', ''Java''), (''.cpp'', ''C++''), (''.c'', ''C''), (''.go'', ''Go''),
      (''.rs'', ''Rust''), (''.php'', ''PHP''), (''.rb'', ''Ruby''), (''.swift'', ''Swift''),
      (''.kt'', ''Kotlin''), (''.cs'', ''C#'')]"

text \<open>\<open>extensionCounts[ext] = (extensionCounts[ext] || 0) + 1\<close>, keys kept in insertion order.\<close>

fun increment :: "string \<Rightarrow> (string \<times> nat) list \<Rightarrow> (string \<times> nat) list" where
  "increment ext [] = [(ext, 1)]"
| "increment ext ((k, n) # kvs) =
     (if k = ext then (k, n + 1) # kvs else (k, n) # increment ext kvs)"

fun countExtensions :: "fsnode \<Rightarrow> (string \<times> nat) list \<Rightarrow> (string \<times> nat) list"
  and countExtensions_entries :: "fsnode list \<Rightarrow> (string \<times> nat) list \<Rightarrow> (string \<times> nat) list"
where
  "countExtensions (FsNode nm kind st rd rerr entries) counts =
     (case rerr of Some e \<Rightarrow> counts | None \<Rightarrow> countExtensions_entries entries counts)"
| "countExtensions_entries [] counts = counts"
| "countExtensions_entries (entry # rest) counts =
     (if startsWith (entry_name entry) ''.'' then countExtensions_entries rest counts
      else if entry_kind entry = DirentDirectory
              \<and> entry_name entry \<notin> set [''node_modules'', ''dist'', ''build'']
        then countExtensions_entries rest (countExtensions entry counts)
      else if entry_kind entry = DirentFile then
        (let ext = extname (entry_name entry)
         in if map_of languageMap ext \<noteq> None
            then countExtensions_entries rest (increment ext counts)
            else countExtensions_entries rest counts)
      else countExtensions_entries rest counts)"

definition detectPrimaryLanguage :: "fsnode \<Rightarrow> string" where
  "detectPrimaryLanguage project =
     (case array_sort (\<lambda>(ka, a) (kb, b). int b - int a) (countExtensions project []) of
        [] \<Rightarrow> ''Unknown''
      | (primaryExtension, n) # others \<Rightarrow>
          (if primaryExtension = [] then ''Unknown''
           else (case map_of languageMap primaryExtension of
                   Some language \<Rightarrow> language
                 | None \<Rightarrow> ''Unknown'')))"

text \<open>
  \<open>detectFramework\<close>: the spread of both dependency maps, the development entry
  winning, tested for a truthy value under each marker name in the fixed order.
\<close>

definition declared :: "manifest \<Rightarrow> string \<Rightarrow> bool" where
  "declared packageInfo k =
     (case map_of (case devDependencies packageInfo of Some ds \<Rightarrow> ds | None \<Rightarrow> []) k of
        Some v \<Rightarrow> v \<noteq> []
      | None \<Rightarrow>
          (case map_of (case dependencies packageInfo of Some ds \<Rightarrow> ds | None \<Rightarrow> []) k of
             Some v \<Rightarrow> v \<noteq> []
           | None \<Rightarrow> False))"

definition detectFramework :: "manifest \<Rightarrow> string option" where
  "detectFramework packageInfo =
     (if declared packageInfo ''react'' then Some ''React''
      else if declared packageInfo ''vue'' then Some ''Vue.js''
      else if declared packageInfo ''angular'' then Some ''Angular''
      else if declared packageInfo ''svelte'' then Some ''Svelte''
      else if declared packageInfo ''express'' then Some ''Express.js''
      else if declared packageInfo ''fastify'' then Some ''Fastify''
      else if declared packageInfo ''nest'' \<or> declared packageInfo ''@nestjs/core'' then Some ''NestJS''
      else if declared packageInfo ''next'' then Some ''Next.js''
      else if declared packageInfo ''nuxt'' then Some ''Nuxt.js''
      else None)"

text \<open>
  \<open>detectPackageManager\<close> of the resource provider: the names \<open>fs.readdir(projectPath)\<close>
  lists decide, and a listing that rejects gives \<open>unknown\<close>.
\<close>

definition detectPackageManager :: "fsnode \<Rightarrow> string" where
  "detectPackageManager project =
     (case fs_readdir project of
        Inl e \<Rightarrow> ''unknown''
      | Inr entries \<Rightarrow>
          (let files = map entry_name entries
           in if ''package-lock.json'' \<in> set files then ''npm''
              else if ''yarn.lock'' \<in> set files then ''yarn''
              else if ''pnpm-lock.yaml'' \<in> set files then ''pnpm''
              else if ''Cargo.toml'' \<in> set files then ''cargo''
              else if ''requirements.txt'' \<in> set files \<or> ''Pipfile'' \<in> set files then ''pip''
              else if ''go.mod'' \<in> set files then ''go mod''
              else if ''Gemfile'' \<in> set files then ''bundler''
              else if ''composer.json'' \<in> set files then ''composer''
              else ''unknown''))"

subsection \<open>Git information\<close>

definition line_terminator :: "char \<Rightarrow> bool" where
  "line_terminator c = (c = CHR 0x0A \<or> c = CHR 0x0D)"

text \<open>
  \<open>headContent.match(/ref: refs\/heads\/(.+)/)\<close>: the first place where the literal is
  followed by at least one character of the same line; the group is the rest of that line.
\<close>

fun match_head_ref :: "string \<Rightarrow> string option" where
  "match_head_ref [] = None"
| "match_head_ref (c # cs) =
     (let captured = takeWhile (\<lambda>x. \<not> line_terminator x) (drop 16 (c # cs))
      in if prefix ''ref: refs/heads/'' (c # cs) \<and> captured \<noteq> [] then Some captured
         else match_head_ref cs)"

definition white_space :: "char \<Rightarrow> bool" where
  "white_space c = (c \<in> set [CHR '' '', CHR 0x09, CHR 0x0A, CHR 0x0B, CHR 0x0C, CHR 0x0D])"

definition trim :: "string \<Rightarrow> string" where
  "trim s = rev (dropWhile white_space (rev (dropWhile white_space s)))"

definition getGitInfo :: "environment \<Rightarrow> string option \<times> string option" where
  "getGitInfo env =
     (case lookup env ''.git'' of
        None \<Rightarrow> (None, None)
      | Some git \<Rightarrow>
          (Some ''Local Git Repository'',
           (case lookup env ''.git/HEAD'' of
              None \<Rightarrow> None
            | Some head \<Rightarrow>
                (case fs_readFile head of
                   Inl e \<Rightarrow> None
                 | Inr headContent \<Rightarrow>
                     (case match_head_ref headContent of
                        None \<Rightarrow> None
                      | Some branch \<Rightarrow> Some (trim branch))))))"

subsection \<open>The four resources\<close>

definition empty_manifest :: manifest where
  "empty_manifest = \<lparr>pkg_name = None, pkg_version = None, pkg_description = None,
                     dependencies = None, devDependencies = None\<rparr>"

definition getProjectOverview :: "environment \<Rightarrow> ProjectOverview" where
  "getProjectOverview env =
     (let packageInfo = (case packageJson env of Inl e \<Rightarrow> empty_manifest | Inr m \<Rightarrow> m);
          stats = getProjectStats (root env);
          gitInfo = getGitInfo env
      in \<lparr>po_name = or_else (pkg_name packageInfo)
                       (or_else (Some (last (split_on CHR ''/'' (projectPath env)))) ''Unknown Project''),
          po_version = or_else (pkg_version packageInfo) ''0.0.0'',
          po_description = or_else (pkg_description packageInfo) ''No description available'',
          po_path = projectPath env,
          po_language = detectPrimaryLanguage (root env),
          po_framework = detectFramework packageInfo,
          po_packageManager = detectPackageManager (root env),
          po_lastModified = snd (snd stats),
          fileCount = fst stats,
          sizeInBytes = fst (snd stats),
          gitRepository = fst gitInfo,
          gitBranch = snd gitInfo\<rparr>)"

definition getProjectStructure :: "environment \<Rightarrow> js_error + ProjectStructure" where
  "getProjectStructure env = buildFileTree (localeCompare env) (projectPath env) [] (root env)"

definition to_dependency :: "dependency_type \<Rightarrow> string \<times> string \<Rightarrow> Dependency" where
  "to_dependency t nv = \<lparr>dep_name = fst nv, dep_version = snd nv, requestedVersion = snd nv, dep_type = t\<rparr>"

text \<open>
  \<open>analyzeNpmDependencies\<close>: a manifest that cannot be read or parsed gives the empty
  npm result; the lock file is probed with \<open>fs.access\<close>.
\<close>

definition analyzeNpmDependencies :: "environment \<Rightarrow> ProjectDependencies" where
  "analyzeNpmDependencies env =
     (case packageJson env of
        Inl e \<Rightarrow> \<lparr>pd_packageManager = ''npm'', pd_dependencies = [], pd_devDependencies = [],
                   totalCount = 0, lockFileExists = False\<rparr>
      | Inr pkg \<Rightarrow>
          (let deps = (case dependencies pkg of
                         Some ds \<Rightarrow> map (to_dependency production) ds | None \<Rightarrow> []);
               devDeps = (case devDependencies pkg of
                            Some ds \<Rightarrow> map (to_dependency development) ds | None \<Rightarrow> [])
           in \<lparr>pd_packageManager = ''npm'', pd_dependencies = deps, pd_devDependencies = devDeps,
               totalCount = length deps + length devDeps,
               lockFileExists = (lookup env ''package-lock.json'' \<noteq> None)\<rparr>))"

definition getProjectDependencies :: "environment \<Rightarrow> ProjectDependencies" where
  "getProjectDependencies env =
     (let packageManager = detectPackageManager (root env)
      in if packageManager = ''npm'' then analyzeNpmDependencies env
         else \<lparr>pd_packageManager = packageManager, pd_dependencies = [], pd_devDependencies = [],
               totalCount = 0, lockFileExists = False\<rparr>)"

text \<open>
  \<open>getFileContent\<close>: every failure inside the \<open>try\<close> block, the two \<open>throw\<close>s of the
  block included, is re-thrown as the same NotFoundError.
\<close>

definition getFileContent :: "environment \<Rightarrow> string \<Rightarrow> js_error + string" where
  "getFileContent env filePath =
     (case lookup env filePath of
        None \<Rightarrow> Inl (NotFoundError (''Cannot read file: '' @ filePath))
      | Some node \<Rightarrow>
          (case fs_stat node of
             Inl e \<Rightarrow> Inl (NotFoundError (''Cannot read file: '' @ filePath))
           | Inr stats \<Rightarrow>
               if isDirectory stats then Inl (NotFoundError (''Cannot read file: '' @ filePath))
               else if st_size stats > 1024 * 1024
                 then Inl (NotFoundError (''Cannot read file: '' @ filePath))
               else (case fs_readFile node of
                       Inl e \<Rightarrow> Inl (NotFoundError (''Cannot read file: '' @ filePath))
                     | Inr content \<Rightarrow> Inr content)))"

definition mimeTypes :: "(string \<times> string) list" where
  "mimeTypes =
     [(''.json'', ''application/json''), (''.js'', ''application/javascript''),
      (''.ts'', ''text/typescript''), (''.html'', ''text/html''), (''.css'', ''text/css''),
      (''.md'', ''text/markdown''), (''.txt'', ''text/plain''), (''.xml'', ''application/xml''),
      (''.yaml'', ''application/yaml''), (''.yml'', ''application/yaml''),
      (''.py'', ''text/x-python''), (''.java'', ''text/x-java-source''),
      (''.cpp'', ''text/x-c++src''), (''.c'', ''text/x-csrc''), (''.go'', ''text/x-go''),
      (''.rs'', ''text/x-rust''), (''.php'', ''text/x-php''), (''.rb'', ''text/x-ruby''),
      (''.swift'', ''text/x-swift''), (''.kt'', ''text/x-kotlin''), (''.cs'', ''text/x-csharp'')]"

definition getMimeTypeForFile :: "(string \<Rightarrow> string) \<Rightarrow> string \<Rightarrow> string" where
  "getMimeTypeForFile lower filePath =
     (case map_of mimeTypes (lower (extname filePath)) of
        Some m \<Rightarrow> m
      | None \<Rightarrow> ''text/plain'')"

text \<open>\<open>String.prototype.replace\<close> with a string pattern: the first occurrence only.\<close>

fun replace_first :: "string \<Rightarrow> string \<Rightarrow> string \<Rightarrow> string" where
  "replace_first pat rep [] = (if pat = [] then rep else [])"
| "replace_first pat rep (c # cs) =
     (if prefix pat (c # cs) then rep @ drop (length pat) (c # cs)
      else c # replace_first pat rep cs)"

text \<open>
  \<open>readResource(uri)\<close>, an \<open>async\<close> method: the dispatch on the URI is an \<open>async\<close>
  closure run inside \<open>errorHandlingMiddleware\<close>. The result holds the one-element
  \<open>contents\<close> array.
\<close>

definition readResource :: "environment \<Rightarrow> string \<Rightarrow> js_error + resource_content list" where
  "readResource env uri =
     awaited (errorHandlingMiddleware (async_closure
       (if uri = ''context://project/overview'' then
          Inr [\<lparr>rc_uri = uri, mimeType = ''application/json'',
                body = OverviewBody (getProjectOverview env)\<rparr>]
        else if uri = ''context://project/structure'' then
          (case getProjectStructure env of
             Inl e \<Rightarrow> Inl e
           | Inr structure \<Rightarrow>
               Inr [\<lparr>rc_uri = uri, mimeType = ''application/json'', body = StructureBody structure\<rparr>])
        else if uri = ''context://project/dependencies'' then
          Inr [\<lparr>rc_uri = uri, mimeType = ''application/json'',
                body = DependenciesBody (getProjectDependencies env)\<rparr>]
        else if startsWith uri ''context://file/'' then
          (let filePath = replace_first ''context://file/'' [] uri
           in case getFileContent env filePath of
                Inl e \<Rightarrow> Inl e
              | Inr content \<Rightarrow>
                  Inr [\<lparr>rc_uri = uri, mimeType = getMimeTypeForFile (toLowerCase env) filePath,
                         body = TextBody content\<rparr>])
        else Inl (NotFoundError (''Resource not found: '' @ uri)))))"

section \<open>The tool executor (src/mcp/tools.ts)\<close>

subsection \<open>Parameters and results\<close>

record AnalyzeDependenciesParams =
  includeDevDependencies :: "bool option"
  checkSecurity :: "bool option"
  outputFormat :: "string option"

record GetRecentChangesParams =
  days :: "int option"
  maxCommits :: "int option"
  includeMerges :: "bool option"
  author :: "string option"

record NavigateStructureParams =
  nav_path :: "string option"
  depth :: "int option"
  includeFiles :: "bool option"
  filterExtensions :: "string list option"

record SearchProjectParams =
  sp_query :: string
  filePattern :: "string option"
  maxResults :: "int option"
  caseSensitive :: "bool option"
  includeContent :: "bool option"

text \<open>A value of type \<open>unknown\<close> as \<open>executeTool\<close> inspects it for \<open>search_project\<close>.\<close>

datatype jsval = JUndefined | JNull | JBoolean bool | JNumber int | JString string | JObject

text \<open>
  The parameter bag of a tool call. \<open>executeTool\<close> passes it through an unchecked cast to
  the first three tools, so the model takes its view at each declared interface as given;
  for \<open>search_project\<close> it reads the raw values by key.
\<close>

record tool_parameters =
  as_AnalyzeDependenciesParams :: AnalyzeDependenciesParams
  as_GetRecentChangesParams :: GetRecentChangesParams
  as_NavigateStructureParams :: NavigateStructureParams
  raw :: "string \<Rightarrow> jsval"

record SecurityVulnerability =
  vuln_package :: string
  vuln_title :: string

record DependencyAnalysisResult =
  packageManager :: string
  totalDependencies :: nat
  productionDependencies :: nat
  developmentDependencies :: nat
  outdatedPackages :: nat
  vulnerabilities :: "SecurityVulnerability list"
  details :: "Dependency list option"

record GitChangesResult =
  totalCommits :: nat
  period_days :: int
  used_maxCommits :: int
  used_includeMerges :: bool
  used_author :: string

record NavigationItem =
  item_name :: string
  item_type :: node_type
  item_path :: string
  item_size :: "nat option"
  item_lastModified :: int
  item_extension :: "string option"

record NavigationResult =
  currentPath :: string
  nav_type :: node_type
  contents :: "NavigationItem list"
  breadcrumb :: "string list"

datatype match_type = filename | content

record SearchMatch =
  match_file :: string
  match_line :: "nat option"
  match_content :: "string option"
  match_kind :: match_type

record SearchResult =
  sr_query :: string
  totalResults :: nat
  results :: "SearchMatch list"
  searchTime :: int

record search_options =
  opt_filePattern :: "string option"
  opt_maxResults :: int
  opt_caseSensitive :: bool
  opt_includeContent :: bool

text \<open>
  What a tool produced. The code returns one text block rendered from this value
  (\<open>generateDependencySummary\<close>, \<open>formatDetailedDependencyReport\<close>, \<open>JSON.stringify\<close>,
  \<open>formatNavigationResult\<close>, \<open>formatSearchResult\<close>); for the dependency report the
  requested format travels with it.
\<close>

datatype tool_output =
    DependencyReport string DependencyAnalysisResult
  | ChangesReport GitChangesResult
  | NavigationReport NavigationResult
  | SearchReport SearchResult

subsection \<open>analyze_dependencies\<close>

text \<open>\<open>detectPackageManager\<close> of the tool executor, which falls back to npm.\<close>

definition tools_detectPackageManager :: "fsnode \<Rightarrow> string" where
  "tools_detectPackageManager project =
     (case fs_readdir project of
        Inl e \<Rightarrow> ''unknown''
      | Inr entries \<Rightarrow>
          (let files = map entry_name entries
           in if ''package-lock.json'' \<in> set files then ''npm''
              else if ''yarn.lock'' \<in> set files then ''yarn''
              else if ''pnpm-lock.yaml'' \<in> set files then ''pnpm''
              else ''npm''))"

definition performSecurityScan :: "SecurityVulnerability list" where
  "performSecurityScan = []"

definition analyzeDependencies :: "environment \<Rightarrow> AnalyzeDependenciesParams \<Rightarrow> js_error + tool_output" where
  "analyzeDependencies env params =
     (let includeDev = (case includeDevDependencies params of Some b \<Rightarrow> b | None \<Rightarrow> True);
          security = (case checkSecurity params of Some b \<Rightarrow> b | None \<Rightarrow> True);
          format = (case outputFormat params of Some f \<Rightarrow> f | None \<Rightarrow> ''summary'')
      in case packageJson env of
           Inl e \<Rightarrow>
             Inl (ValidationError
                    ''Unable to analyze dependencies. Ensure package.json exists and is valid.'')
         | Inr pkg \<Rightarrow>
             (let production_n = (case dependencies pkg of Some ds \<Rightarrow> length ds | None \<Rightarrow> 0);
                  production_details = (case dependencies pkg of
                                          Some ds \<Rightarrow> map (to_dependency production) ds
                                        | None \<Rightarrow> []);
                  development_n = (if includeDev
                                   then (case devDependencies pkg of Some ds \<Rightarrow> length ds | None \<Rightarrow> 0)
                                   else 0);
                  development_details = (if includeDev
                                         then (case devDependencies pkg of
                                                 Some ds \<Rightarrow> map (to_dependency development) ds
                                               | None \<Rightarrow> [])
                                         else [])
              in Inr (DependencyReport format
                       \<lparr>packageManager = tools_detectPackageManager (root env),
                        totalDependencies = production_n + development_n,
                        productionDependencies = production_n,
                        developmentDependencies = development_n,
                        outdatedPackages = 0,
                        vulnerabilities = (if security then performSecurityScan else []),
                        details = (if format \<noteq> ''summary''
                                   then Some (production_details @ development_details)
                                   else None)\<rparr>)))"

subsection \<open>get_recent_changes\<close>

definition getRecentChanges :: "GetRecentChangesParams \<Rightarrow> js_error + tool_output" where
  "getRecentChanges params =
     Inr (ChangesReport
            \<lparr>totalCommits = 0,
             period_days = (case days params of Some d \<Rightarrow> d | None \<Rightarrow> 7),
             used_maxCommits = (case maxCommits params of Some m \<Rightarrow> m | None \<Rightarrow> 50),
             used_includeMerges = (case includeMerges params of Some b \<Rightarrow> b | None \<Rightarrow> False),
             used_author = or_else (author params) ''None''\<rparr>)"

subsection \<open>navigate_structure\<close>

definition compare_items :: "(string \<Rightarrow> string \<Rightarrow> int) \<Rightarrow> NavigationItem \<Rightarrow> NavigationItem \<Rightarrow> int" where
  "compare_items lc a b =
     (if item_type a \<noteq> item_type b then (if item_type a = Directory then -1 else 1)
      else lc (item_name a) (item_name b))"

text \<open>
  The loop over the entries of the target directory; a \<open>stat\<close> that rejects leaves it, and
  so does \<open>entryStats.mtime.toISOString()\<close> when it throws while the item is built.
\<close>

fun navigate_entries :: "string \<Rightarrow> bool \<Rightarrow> string list option \<Rightarrow> fsnode list
    \<Rightarrow> NavigationItem list \<Rightarrow> js_error + NavigationItem list" where
  "navigate_entries path incl exts [] items = Inr items"
| "navigate_entries path incl exts (entry # rest) items =
     (if hidden_entry (entry_name entry) then navigate_entries path incl exts rest items
      else if entry_name entry \<in> set skip_dirs then navigate_entries path incl exts rest items
      else (case fs_stat entry of
              Inl e \<Rightarrow> Inl e
            | Inr entryStats \<Rightarrow>
                if (case exts of
                      Some allowed \<Rightarrow> entry_kind entry = DirentFile
                                        \<and> extname (entry_name entry) \<notin> set allowed
                    | None \<Rightarrow> False)
                  then navigate_entries path incl exts rest items
                else if \<not> incl \<and> entry_kind entry = DirentFile
                  then navigate_entries path incl exts rest items
                else (case toISOString (mtime entryStats) of
                        Inl e \<Rightarrow> Inl e
                      | Inr lastModified \<Rightarrow>
                          navigate_entries path incl exts rest
                            (items @
                             [\<lparr>item_name = entry_name entry,
                               item_type = (if entry_kind entry = DirentDirectory
                                            then Directory else File),
                               item_path = (if path \<noteq> [] then path @ ''/'' @ entry_name entry
                                            else entry_name entry),
                               item_size = (if entry_kind entry = DirentFile
                                            then Some (st_size entryStats) else None),
                               item_lastModified = lastModified,
                               item_extension = (if entry_kind entry = DirentFile
                                                 then Some (extname (entry_name entry))
                                                 else None)\<rparr>]))))"

definition navigateStructure :: "environment \<Rightarrow> NavigateStructureParams \<Rightarrow> js_error + tool_output" where
  "navigateStructure env params =
     (let path = (case nav_path params of Some p \<Rightarrow> p | None \<Rightarrow> []);
          incl = (case includeFiles params of Some b \<Rightarrow> b | None \<Rightarrow> True);
          target = (if path \<noteq> [] then lookup env path else Some (root env));
          failed = Inl (NotFoundError (''Path not found or inaccessible: '' @ path))
      in case target of
           None \<Rightarrow> failed
         | Some node \<Rightarrow>
             (case fs_stat node of
                Inl e \<Rightarrow> failed
              | Inr stats \<Rightarrow>
                  (let result = \<lparr>currentPath = (if path \<noteq> [] then path else ''.''),
                                 nav_type = (if isDirectory stats then Directory else File),
                                 contents = [],
                                 breadcrumb = filter (\<lambda>s. s \<noteq> []) (split_on CHR ''/'' path)\<rparr>
                   in if isDirectory stats then
                        (case fs_readdir node of
                           Inl e \<Rightarrow> failed
                         | Inr entries \<Rightarrow>
                             (case navigate_entries path incl (filterExtensions params) entries [] of
                                Inl e \<Rightarrow> failed
                              | Inr items \<Rightarrow>
                                  Inr (NavigationReport
                                         (result\<lparr>contents :=
                                            array_sort (compare_items (localeCompare env)) items\<rparr>))))
                      else Inr (NavigationReport result))))"

subsection \<open>search_project\<close>

definition push_match :: "SearchMatch \<Rightarrow> SearchResult \<Rightarrow> SearchResult" where
  "push_match m result =
     result\<lparr>results := results result @ [m], totalResults := totalResults result + 1\<rparr>"

text \<open>
  The loop over the lines of one file, \<open>i\<close> being the index of the first line of \<open>lines\<close>.
  Empty lines are passed over.
\<close>

fun search_lines :: "(string \<Rightarrow> string) \<Rightarrow> string \<Rightarrow> string \<Rightarrow> search_options \<Rightarrow> nat \<Rightarrow> string list
    \<Rightarrow> SearchResult \<Rightarrow> SearchResult" where
  "search_lines lower relativePath searchQuery options i [] result = result"
| "search_lines lower relativePath searchQuery options i (line # rest) result =
     (if \<not> int (length (results result)) < opt_maxResults options then result
      else if line = [] then search_lines lower relativePath searchQuery options (i + 1) rest result
      else if includes_str (if opt_caseSensitive options then line else lower line) searchQuery
        then search_lines lower relativePath searchQuery options (i + 1) rest
               (push_match \<lparr>match_file = relativePath, match_line = Some (i + 1),
                             match_content = Some line, match_kind = content\<rparr> result)
      else search_lines lower relativePath searchQuery options (i + 1) rest result)"

text \<open>
  The body of the loop of \<open>searchInDirectory\<close> for an entry that is a file: the file-name
  match, then the content match, which only reads a file of at most 1 MiB. A \<open>stat\<close> or a
  read that rejects is caught and the file passed over.
\<close>

definition search_file :: "(string \<Rightarrow> string) \<Rightarrow> string \<Rightarrow> string \<Rightarrow> search_options \<Rightarrow> fsnode \<Rightarrow> SearchResult \<Rightarrow> SearchResult" where
  "search_file lower relativePath query options entry result =
     (let nameMatch = (if opt_caseSensitive options
                       then includes_str (entry_name entry) query
                       else includes_str (lower (entry_name entry)) (lower query));
          result1 = (if nameMatch
                     then push_match \<lparr>match_file = relativePath, match_line = None,
                                       match_content = None, match_kind = filename\<rparr> result
                     else result)
      in if opt_includeContent options \<and> int (length (results result1)) < opt_maxResults options then
           (case fs_stat entry of
              Inl e \<Rightarrow> result1
            | Inr stats \<Rightarrow>
                if st_size stats > 1024 * 1024 then result1
                else (case fs_readFile entry of
                        Inl e \<Rightarrow> result1
                      | Inr fileText \<Rightarrow>
                          (let searchContent = (if opt_caseSensitive options then fileText else lower fileText);
                               searchQuery = (if opt_caseSensitive options then query else lower query)
                           in if includes_str searchContent searchQuery
                              then search_lines lower relativePath searchQuery options 0
                                     (split_on CHR 0x0A fileText) result1
                              else result1)))
         else result1)"

text \<open>
  \<open>searchInDirectory(dir, basePath, query, result, options)\<close> on a directory entry reached
  by the names \<open>rel\<close>, and its loop over the entries. The project path is taken to be
  absolute and normalised, as \<open>process.cwd()\<close> gives it, so that
  \<open>fullPath.replace(basePath + '/', '')\<close> is the path below the base path.
\<close>

fun searchInDirectory :: "(string \<Rightarrow> string) \<Rightarrow> string list \<Rightarrow> string \<Rightarrow> search_options \<Rightarrow> fsnode \<Rightarrow> SearchResult \<Rightarrow> SearchResult"
  and searchInDirectory_entries :: "(string \<Rightarrow> string) \<Rightarrow> string list \<Rightarrow> string \<Rightarrow> search_options \<Rightarrow> fsnode list
      \<Rightarrow> SearchResult \<Rightarrow> SearchResult"
where
  "searchInDirectory lower rel query options (FsNode nm kind st rd rerr entries) result =
     (if int (length (results result)) \<ge> opt_maxResults options then result
      else (case rerr of
              Some e \<Rightarrow> result
            | None \<Rightarrow> searchInDirectory_entries lower rel query options entries result))"
| "searchInDirectory_entries lower rel query options [] result = result"
| "searchInDirectory_entries lower rel query options (entry # rest) result =
     (if int (length (results result)) \<ge> opt_maxResults options then result
      else if hidden_entry (entry_name entry)
        then searchInDirectory_entries lower rel query options rest result
      else if entry_name entry \<in> set skip_dirs
        then searchInDirectory_entries lower rel query options rest result
      else if entry_kind entry = DirentDirectory
        then searchInDirectory_entries lower rel query options rest
               (searchInDirectory lower (rel @ [entry_name entry]) query options entry result)
      else if entry_kind entry = DirentFile
        then searchInDirectory_entries lower rel query options rest
               (search_file lower (join_with ''/'' (rel @ [entry_name entry])) query options entry result)
      else searchInDirectory_entries lower rel query options rest result)"

text \<open>
  \<open>searchProject\<close>: the search time is the difference of the two readings of
  \<open>Date.now()\<close>, taken before and after the walk.
\<close>

definition searchProject :: "environment \<Rightarrow> SearchProjectParams \<Rightarrow> js_error + tool_output" where
  "searchProject env params =
     (let options = \<lparr>opt_filePattern = (case filePattern params of
                                           Some p \<Rightarrow> (if p = [] then None else Some p)
                                         | None \<Rightarrow> None),
                     opt_maxResults = (case maxResults params of Some m \<Rightarrow> m | None \<Rightarrow> 100),
                     opt_caseSensitive = (case caseSensitive params of Some b \<Rightarrow> b | None \<Rightarrow> False),
                     opt_includeContent = (case includeContent params of Some b \<Rightarrow> b | None \<Rightarrow> True)\<rparr>
      in if sp_query params = [] then Inl (ValidationError ''Search query is required'')
         else (let startTime = date_now env 0;
                   result = \<lparr>sr_query = sp_query params, totalResults = 0, results = [], searchTime = 0\<rparr>;
                   found = searchInDirectory (toLowerCase env) [] (sp_query params) options (root env) result
               in Inr (SearchReport (found\<lparr>searchTime := date_now env 1 - startTime\<rparr>))))"

subsection \<open>executeTool\<close>

text \<open>
  The parameters \<open>executeTool\<close> hands to \<open>searchProject\<close>. The test
  \<open>v && typeof v === 'string'\<close> holds of a non-empty string only,
  \<open>v && typeof v === 'number'\<close> of a number other than 0 only, and
  \<open>v !== undefined && typeof v === 'boolean'\<close> of a boolean only; any other value
  leaves the key unset.
\<close>

definition search_params_of :: "(string \<Rightarrow> jsval) \<Rightarrow> string \<Rightarrow> SearchProjectParams" where
  "search_params_of parameters q =
     \<lparr>sp_query = q,
      filePattern = (case parameters ''filePattern'' of
                       JString p \<Rightarrow> (if p \<noteq> [] then Some p else None) | _ \<Rightarrow> None),
      maxResults = (case parameters ''maxResults'' of
                      JNumber n \<Rightarrow> (if n \<noteq> 0 then Some n else None) | _ \<Rightarrow> None),
      caseSensitive = (case parameters ''caseSensitive'' of JBoolean b \<Rightarrow> Some b | _ \<Rightarrow> None),
      includeContent = (case parameters ''includeContent'' of JBoolean b \<Rightarrow> Some b | _ \<Rightarrow> None)\<rparr>"

definition executeTool :: "environment \<Rightarrow> string \<Rightarrow> tool_parameters \<Rightarrow> js_error + tool_output" where
  "executeTool env toolName parameters =
     awaited (errorHandlingMiddleware (async_closure
       (if toolName = ''analyze_dependencies''
          then analyzeDependencies env (as_AnalyzeDependenciesParams parameters)
        else if toolName = ''get_recent_changes''
          then getRecentChanges (as_GetRecentChangesParams parameters)
        else if toolName = ''navigate_structure''
          then navigateStructure env (as_NavigateStructureParams parameters)
        else if toolName = ''search_project''
          then (case raw parameters ''query'' of
                  JString q \<Rightarrow>
                    (if q = [] then Inl (ValidationError ''Search query is required'')
                     else searchProject env (search_params_of (raw parameters) q))
                | _ \<Rightarrow> Inl (ValidationError ''Search query is required''))
        else Inl (NotFoundError (''Unknown tool: '' @ toolName)))))"

section \<open>Notions used in the statements\<close>

text \<open>
  Case-sensitive lexicographic comparison of two strings by character code, as a
  comparator in the convention of \<open>localeCompare\<close> (negative, zero, positive).
\<close>

definition code_unit_compare :: "string \<Rightarrow> string \<Rightarrow> int" where
  "code_unit_compare a b = (if a < b then -1 else if b < a then 1 else 0)"

text \<open>
  A comparator that \<open>Array.prototype.sort\<close> can rely on: any two names compare one way
  or the other, and the order is transitive.
\<close>

definition consistent_comparator :: "('a \<Rightarrow> 'a \<Rightarrow> int) \<Rightarrow> bool" where
  "consistent_comparator compare =
     ((\<forall>a b. compare a b \<le> 0 \<or> compare b a \<le> 0)
      \<and> (\<forall>a b c. compare a b \<le> 0 \<and> compare b c \<le> 0 \<longrightarrow> compare a c \<le> 0))"

text \<open>
  The order of one children list: all directories, then all files, and each of the two
  groups in nondecreasing order of the names under \<open>lc\<close>.
\<close>

definition children_sorted :: "(string \<Rightarrow> string \<Rightarrow> int) \<Rightarrow> ProjectStructure list \<Rightarrow> bool" where
  "children_sorted lc cs =
     (cs = filter (\<lambda>c. ps_type c = Directory) cs @ filter (\<lambda>c. ps_type c = File) cs
      \<and> sorted_wrt (\<lambda>a b. lc (ps_name a) (ps_name b) \<le> 0) (filter (\<lambda>c. ps_type c = Directory) cs)
      \<and> sorted_wrt (\<lambda>a b. lc (ps_name a) (ps_name b) \<le> 0) (filter (\<lambda>c. ps_type c = File) cs))"

text \<open>The same at every level of a structure.\<close>

fun tree_sorted :: "(string \<Rightarrow> string \<Rightarrow> int) \<Rightarrow> ProjectStructure \<Rightarrow> bool" where
  "tree_sorted lc (ProjectStructure p t n e s ch m) =
     (case ch of
        None \<Rightarrow> True
      | Some cs \<Rightarrow> children_sorted lc cs \<and> list_all (tree_sorted lc) cs)"

text \<open>
  \<open>fs.stat\<close> succeeds, with a modification time that is a valid date, on the entry and on
  every entry \<open>buildFileTree\<close> visits below it: the entries of a listed directory that
  the skip rule keeps.
\<close>

fun walk_stats_ok :: "fsnode \<Rightarrow> bool" where
  "walk_stats_ok (FsNode nm kind st rd rerr entries) =
     (case st of
        Inl e \<Rightarrow> False
      | Inr stats \<Rightarrow>
          valid_date (mtime stats)
          \<and> (isFile stats \<or> \<not> isDirectory stats \<or> rerr \<noteq> None
               \<or> list_all (\<lambda>entry. hidden_entry (entry_name entry)
                                     \<or> entry_name entry \<in> set skip_dirs
                                     \<or> walk_stats_ok entry) entries))"


text \<open>
  The same tree with the outcome of reading each file whose \<open>stat\<close> reports more than
  1 MiB replaced by \<open>r\<close>: two trees related in this way differ only in what such files hold.
\<close>

fun replace_large_content :: "js_error + string \<Rightarrow> fsnode \<Rightarrow> fsnode" where
  "replace_large_content r (FsNode nm kind st rd rerr entries) =
     FsNode nm kind st
       (case st of
          Inl e \<Rightarrow> rd
        | Inr stats \<Rightarrow> if st_size stats > 1024 * 1024 then r else rd)
       rerr (map (replace_large_content r) entries)"

section \<open>Concrete projects\<close>

text \<open>
  Entries as a POSIX file system presents them: a regular file, a directory, and a symbolic
  link whose target is missing, on which \<open>fs.stat\<close> rejects with ENOENT.
\<close>

definition regular_file :: "string \<Rightarrow> nat \<Rightarrow> string \<Rightarrow> fsnode" where
  "regular_file nm bytes fileText =
     FsNode nm DirentFile (Inr (Stats False True bytes 0)) (Inr fileText)
       (Some (Error ''ENOTDIR: not a directory'')) []"

definition folder :: "string \<Rightarrow> fsnode list \<Rightarrow> fsnode" where
  "folder nm entries =
     FsNode nm DirentDirectory (Inr (Stats True False 4096 0))
       (Inl (Error ''EISDIR: illegal operation on a directory'')) None entries"

definition broken_link :: "string \<Rightarrow> fsnode" where
  "broken_link nm =
     FsNode nm DirentOther (Inl (Error ''ENOENT: no such file or directory''))
       (Inl (Error ''ENOENT: no such file or directory''))
       (Some (Error ''ENOENT: no such file or directory'')) []"

text \<open>
  A project at \<open>/work/project\<close>, with ASCII text throughout, on a host whose
  \<open>localeCompare\<close> is the code-unit order and whose clock advances by one millisecond per
  reading.
\<close>

definition project :: "fsnode list \<Rightarrow> (string \<Rightarrow> fsnode option) \<Rightarrow> js_error + manifest \<Rightarrow> environment" where
  "project entries at pkg =
     \<lparr>projectPath = ''/work/project'', root = folder ''project'' entries, lookup = at,
      packageJson = pkg, localeCompare = code_unit_compare, toLowerCase = ascii_toLowerCase,
      date_now = int\<rparr>"

definition no_manifest :: "js_error + manifest" where
  "no_manifest = Inl (Error ''ENOENT: no such file or directory'')"

text \<open>Two files and a directory, listed in an order that is not the sorted one.\<close>

definition small_project :: environment where
  "small_project =
     project [regular_file ''b.txt'' 3 ''foo'',
              folder ''lib'' [regular_file ''z.ts'' 10 ''let foo = 1'', regular_file ''a.ts'' 5 ''x''],
              regular_file ''a.txt'' 7 ''a foo b'']
       (\<lambda>p. None) no_manifest"

text \<open>A file, a directory and a dangling symbolic link, in the order \<open>readdir\<close> lists them.\<close>

definition dangling_project :: environment where
  "dangling_project =
     project [regular_file ''a.txt'' 7 ''hello'', folder ''lib'' [], broken_link ''current'']
       (\<lambda>p. None) no_manifest"


text \<open>
  A host comparator in the manner of a locale collation: names are compared without
  regard to case first, and of two names equal up to case the one in lower case comes
  first. Under the default collation of Node.js, \<open>'a.txt'.localeCompare('B.txt')\<close> is
  negative, as it is here.
\<close>

definition collating_compare :: "string \<Rightarrow> string \<Rightarrow> int" where
  "collating_compare a b =
     (if ascii_toLowerCase a < ascii_toLowerCase b then -1
      else if ascii_toLowerCase b < ascii_toLowerCase a then 1
      else if b < a then -1
      else if a < b then 1
      else 0)"

text \<open>Two files whose names differ in case, on such a host.\<close>

definition mixed_case_project :: environment where
  "mixed_case_project =
     (project [regular_file ''B.txt'' 1 ''x'', regular_file ''a.txt'' 1 ''y''] (\<lambda>p. None) no_manifest)
       \<lparr>localeCompare := collating_compare\<rparr>"

text \<open>
  A manifest declaring the one production dependency \<open>lodash\<close> and nothing else, in a
  project directory that holds only \<open>package.json\<close>, and in one that also holds the npm
  lock file.
\<close>

definition lodash_manifest :: manifest where
  "lodash_manifest =
     \<lparr>pkg_name = Some ''demo'', pkg_version = Some ''1.0.0'', pkg_description = None,
      dependencies = Some [(''lodash'', ''^4.0.0'')], devDependencies = None\<rparr>"

definition unlocked_project :: environment where
  "unlocked_project =
     project [regular_file ''package.json'' 60 []]
       (\<lambda>p. if p = ''package.json'' then Some (regular_file ''package.json'' 60 []) else None)
       (Inr lodash_manifest)"

definition locked_project :: environment where
  "locked_project =
     project [regular_file ''package-lock.json'' 900 [], regular_file ''package.json'' 60 []]
       (\<lambda>p. if p = ''package.json'' then Some (regular_file ''package.json'' 60 [])
            else if p = ''package-lock.json'' then Some (regular_file ''package-lock.json'' 900 [])
            else None)
       (Inr lodash_manifest)"

text \<open>A manifest with two production and three development dependencies.\<close>

definition five_manifest :: manifest where
  "five_manifest =
     \<lparr>pkg_name = Some ''demo'', pkg_version = Some ''1.0.0'', pkg_description = None,
      dependencies = Some [(''express'', ''^4.18.0''), (''lodash'', ''^4.0.0'')],
      devDependencies = Some [(''jest'', ''^29.0.0''), (''eslint'', ''^8.0.0''),
                              (''typescript'', ''^5.0.0'')]\<rparr>"

definition five_project :: environment where
  "five_project = project [regular_file ''package.json'' 200 []] (\<lambda>p. None) (Inr five_manifest)"

text \<open>A parameter bag with no key set, and bags that set one key.\<close>

definition no_parameters :: tool_parameters where
  "no_parameters =
     \<lparr>as_AnalyzeDependenciesParams =
        \<lparr>includeDevDependencies = None, checkSecurity = None, outputFormat = None\<rparr>,
      as_GetRecentChangesParams =
        \<lparr>days = None, maxCommits = None, includeMerges = None, author = None\<rparr>,
      as_NavigateStructureParams =
        \<lparr>nav_path = None, depth = None, includeFiles = None, filterExtensions = None\<rparr>,
      raw = (\<lambda>k. JUndefined)\<rparr>"

definition with_includeDevDependencies :: "bool \<Rightarrow> tool_parameters" where
  "with_includeDevDependencies b =
     no_parameters\<lparr>as_AnalyzeDependenciesParams :=
        \<lparr>includeDevDependencies = Some b, checkSecurity = None, outputFormat = None\<rparr>\<rparr>"

text \<open>A project holding a file of two MiB whose text contains the word searched for.\<close>

definition large_file :: fsnode where
  "large_file = regular_file ''dump.log'' 2097152 ''foo foo foo''"

definition large_project :: environment where
  "large_project =
     project [large_file, regular_file ''notes.txt'' 11 ''no foo here'']
       (\<lambda>p. if p = ''dump.log'' then Some large_file else None) no_manifest"

definition search_for :: "string \<Rightarrow> int \<Rightarrow> tool_parameters" where
  "search_for q n =
     no_parameters\<lparr>raw := (\<lambda>k. if k = ''query'' then JString q
                               else if k = ''maxResults'' then JNumber n
                               else JUndefined)\<rparr>"

section \<open>Properties of the middleware\<close>

text \<open>
  C6 (as amended). For every error object with a string name and message with which the
  promise of the wrapped operation rejects, the middleware classifies it by its \<open>name\<close>:
  a ValidationError is re-thrown as "Invalid request: " followed by the original message,
  a NotFoundError as "Resource not found: " followed by it, a PermissionError as
  "Permission denied: " followed by it, and an error of any other name is re-thrown as
  exactly "Internal server error", its message dropped.
\<close>

theorem errorHandlingMiddleware_classifies:
  "(name = ''ValidationError'' \<longrightarrow>
      errorHandlingMiddleware (Rejects (JsError name message) :: 'a invocation)
        = Rejects (Error (''Invalid request: '' @ message)))
   \<and> (name = ''NotFoundError'' \<longrightarrow>
      errorHandlingMiddleware (Rejects (JsError name message) :: 'a invocation)
        = Rejects (Error (''Resource not found: '' @ message)))
   \<and> (name = ''PermissionError'' \<longrightarrow>
      errorHandlingMiddleware (Rejects (JsError name message) :: 'a invocation)
        = Rejects (Error (''Permission denied: '' @ message)))
   \<and> (name \<notin> {''ValidationError'', ''NotFoundError'', ''PermissionError''} \<longrightarrow>
      errorHandlingMiddleware (Rejects (JsError name message) :: 'a invocation)
        = Rejects (Error ''Internal server error''))"
  by (simp add: errorHandlingMiddleware_def)

theorem errorHandlingMiddleware_classifies_witness:
  "errorHandlingMiddleware (Rejects (ValidationError ''bad input'') :: unit invocation)
     = Rejects (Error ''Invalid request: bad input'')
   \<and> errorHandlingMiddleware (Rejects (NotFoundError ''no such file'') :: unit invocation)
     = Rejects (Error ''Resource not found: no such file'')
   \<and> errorHandlingMiddleware (Rejects (PermissionError ''read only'') :: unit invocation)
     = Rejects (Error ''Permission denied: read only'')
   \<and> errorHandlingMiddleware (Rejects (JsError ''TypeError'' ''x is not a function'') :: unit invocation)
     = Rejects (Error ''Internal server error'')"
  using errorHandlingMiddleware_classifies [of "''ValidationError''" "''bad input''", where ?'a = unit]
        errorHandlingMiddleware_classifies [of "''NotFoundError''" "''no such file''", where ?'a = unit]
        errorHandlingMiddleware_classifies [of "''PermissionError''" "''read only''", where ?'a = unit]
        errorHandlingMiddleware_classifies [of "''TypeError''" "''x is not a function''", where ?'a = unit]
  by (simp add: ValidationError_def NotFoundError_def PermissionError_def)

text \<open>
  C6 as stated fails, in two ways. A ValidationError that the operation throws before it
  returns a promise leaves the middleware as it is, not re-thrown as "Invalid request: ...",
  since the handler is attached to the promise only. And when the promise rejects with
  \<open>null\<close>, the handler's reading of \<open>error.message\<close> throws a TypeError, so the caller
  does not receive "Internal server error".
\<close>

theorem errorHandlingMiddleware_classifies_counterexample:
  "errorHandlingMiddleware (Throws (ValidationError ''bad input'') :: unit invocation)
     = Throws (ValidationError ''bad input'')
   \<and> ValidationError ''bad input'' \<noteq> Error ''Invalid request: bad input''
   \<and> errorHandlingMiddleware (Rejects JsNull :: unit invocation)
     = Rejects (JsError ''TypeError'' ''Cannot read properties of null (reading 'message')'')
   \<and> JsError ''TypeError'' ''Cannot read properties of null (reading 'message')''
     \<noteq> Error ''Internal server error''"
  by (simp add: errorHandlingMiddleware_def ValidationError_def Error_def)

section \<open>Properties of the rate limiter\<close>

text \<open>
  C10. A rejected call leaves the limiter as it was: no timestamp is added for the
  rejected request, and the pruned list computed during the check is not stored.
\<close>

theorem checkLimit_reject_unchanged:
  "fst (checkLimit now clientId rl) = False \<Longrightarrow> snd (checkLimit now clientId rl) = rl"
  by (simp add: checkLimit_def Let_def split: if_splits)

theorem checkLimit_reject_unchanged_witness:
  "fst (checkLimit 30 ''c'' \<lparr>requests = [''c'' \<mapsto> [0, 10, 20]], maxRequests = 2, windowMs = 25\<rparr>) = False
   \<and> snd (checkLimit 30 ''c'' \<lparr>requests = [''c'' \<mapsto> [0, 10, 20]], maxRequests = 2, windowMs = 25\<rparr>)
       = \<lparr>requests = [''c'' \<mapsto> [0, 10, 20]], maxRequests = 2, windowMs = 25\<rparr>"
proof -
  have h: "fst (checkLimit 30 ''c'' \<lparr>requests = [''c'' \<mapsto> [0, 10, 20]], maxRequests = 2, windowMs = 25\<rparr>) = False"
    by (simp add: checkLimit_def Let_def)
  show ?thesis using h checkLimit_reject_unchanged [OF h] by simp
qed

text \<open>
  C8. With \<open>maxRequests = 2\<close>: when one caller's requests at \<open>t1\<close> and \<open>t2\<close> are both
  admitted and lie in one window, a third call at \<open>t3\<close> in that window is rejected, and a
  later call at \<open>t4\<close>, made once the window has elapsed since both admitted requests, is
  admitted.
\<close>

theorem checkLimit_two_per_window:
  assumes max2: "maxRequests rl = 2"
    and adm1: "fst (checkLimit t1 c rl)"
    and adm2: "fst (checkLimit t2 c (snd (checkLimit t1 c rl)))"
    and w21: "t2 - t1 < windowMs rl"
    and w31: "t3 - t1 < windowMs rl"
    and w32: "t3 - t2 < windowMs rl"
    and e41: "t4 - t1 \<ge> windowMs rl"
    and e42: "t4 - t2 \<ge> windowMs rl"
  shows "\<not> fst (checkLimit t3 c (snd (checkLimit t2 c (snd (checkLimit t1 c rl)))))
    \<and> fst (checkLimit t4 c (snd (checkLimit t3 c (snd (checkLimit t2 c (snd (checkLimit t1 c rl)))))))"
proof -
  define rl1 where "rl1 = snd (checkLimit t1 c rl)"
  define rl2 where "rl2 = snd (checkLimit t2 c rl1)"
  define old where "old = (case requests rl c of Some ts \<Rightarrow> ts | None \<Rightarrow> [])"
  define v1 where "v1 = filter (\<lambda>timestamp. t1 - timestamp < windowMs rl) old"
  have len1: "int (length v1) < 2"
    using adm1 max2 by (simp add: checkLimit_def Let_def v1_def old_def split: if_splits)
  have rl1: "rl1 = rl\<lparr>requests := (requests rl)(c \<mapsto> v1 @ [t1])\<rparr>"
    using len1 max2 by (simp add: rl1_def checkLimit_def Let_def v1_def old_def)
  define v2 where "v2 = filter (\<lambda>timestamp. t2 - timestamp < windowMs rl) (v1 @ [t1])"
  have len2: "int (length v2) < 2"
    using adm2 max2 unfolding rl1_def [symmetric]
    by (simp add: rl1 checkLimit_def Let_def v2_def not_le split: if_splits)
  have "filter (\<lambda>timestamp. t2 - timestamp < windowMs rl) v1 = []"
    using len2 w21 by (simp add: v2_def not_le)
  then have v2: "v2 = [t1]"
    using w21 by (simp add: v2_def)
  have rl2: "rl2 = rl\<lparr>requests := (requests rl)(c \<mapsto> [t1, t2])\<rparr>"
  proof -
    have "checkLimit t2 c rl1 = (True, rl1\<lparr>requests := (requests rl1)(c \<mapsto> v2 @ [t2])\<rparr>)"
      using len2 max2 by (simp add: rl1 checkLimit_def Let_def v2_def)
    then show ?thesis by (simp add: rl2_def rl1 v2)
  qed
  have third: "checkLimit t3 c rl2 = (False, rl2)"
    using w31 w32 max2 by (simp add: rl2 checkLimit_def Let_def)
  have fourth: "fst (checkLimit t4 c rl2)"
    using e41 e42 max2 by (simp add: rl2 checkLimit_def Let_def)
  show ?thesis
    unfolding rl1_def [symmetric] rl2_def [symmetric] using third fourth by simp
qed

theorem checkLimit_two_per_window_witness:
  "\<not> fst (checkLimit 59999 ''client1'' (snd (checkLimit 1000 ''client1''
        (snd (checkLimit 0 ''client1'' (new_RateLimiter 2 60000))))))
   \<and> fst (checkLimit 61000 ''client1'' (snd (checkLimit 59999 ''client1''
        (snd (checkLimit 1000 ''client1'' (snd (checkLimit 0 ''client1'' (new_RateLimiter 2 60000))))))))"
proof -
  have a1: "fst (checkLimit 0 ''client1'' (new_RateLimiter 2 60000))"
    by (simp add: checkLimit_def new_RateLimiter_def)
  have a2: "fst (checkLimit 1000 ''client1'' (snd (checkLimit 0 ''client1'' (new_RateLimiter 2 60000))))"
    by (simp add: checkLimit_def new_RateLimiter_def)
  show ?thesis
    using checkLimit_two_per_window [of "new_RateLimiter 2 60000" 0 "''client1''" 1000 59999 61000, OF _ a1 a2]
    by (simp add: new_RateLimiter_def)
qed

section \<open>Properties of the structure tree\<close>

lemma set_insert_by: "set (insert_by cmp x xs) = insert x (set xs)"
  by (induction xs) auto

lemma set_array_sort: "set (array_sort cmp xs) = set xs"
  unfolding array_sort_def by (induction xs) (simp_all add: set_insert_by)

lemma sorted_insert_by:
  assumes "consistent_comparator cmp" and "sorted_wrt (\<lambda>a b. cmp a b \<le> 0) xs"
  shows "sorted_wrt (\<lambda>a b. cmp a b \<le> 0) (insert_by cmp x xs)"
  using assms(2)
proof (induction xs)
  case Nil
  then show ?case by simp
next
  case (Cons y ys)
  have tot: "cmp x y \<le> 0 \<or> cmp y x \<le> 0"
    using assms(1) unfolding consistent_comparator_def by blast
  have tr: "\<And>a b c. cmp a b \<le> 0 \<Longrightarrow> cmp b c \<le> 0 \<Longrightarrow> cmp a c \<le> 0"
    using assms(1) unfolding consistent_comparator_def by blast
  show ?case
  proof (cases "cmp x y \<le> 0")
    case True
    then have "\<forall>z\<in>set ys. cmp x z \<le> 0"
      using Cons.prems tr by auto
    with True Cons.prems show ?thesis by simp
  next
    case False
    then have "cmp y x \<le> 0" using tot by simp
    with False Cons show ?thesis by (auto simp: set_insert_by)
  qed
qed

lemma sorted_array_sort:
  assumes "consistent_comparator cmp"
  shows "sorted_wrt (\<lambda>a b. cmp a b \<le> 0) (array_sort cmp xs)"
  unfolding array_sort_def
  by (induction xs) (simp_all add: sorted_insert_by [OF assms])

lemma consistent_compare_nodes:
  assumes "consistent_comparator lc"
  shows "consistent_comparator (compare_nodes lc)"
proof -
  have tot: "\<And>a b. lc a b \<le> 0 \<or> lc b a \<le> 0"
    using assms unfolding consistent_comparator_def by blast
  have tr: "\<And>a b c. lc a b \<le> 0 \<Longrightarrow> lc b c \<le> 0 \<Longrightarrow> lc a c \<le> 0"
    using assms unfolding consistent_comparator_def by blast
  show ?thesis
    unfolding consistent_comparator_def compare_nodes_def
  proof (intro conjI allI impI)
    fix a b
    show "(if ps_type a \<noteq> ps_type b then if ps_type a = Directory then - 1 else 1
           else lc (ps_name a) (ps_name b)) \<le> 0
        \<or> (if ps_type b \<noteq> ps_type a then if ps_type b = Directory then - 1 else 1
           else lc (ps_name b) (ps_name a)) \<le> 0"
      using tot [of "ps_name a" "ps_name b"]
      by (cases "ps_type a"; cases "ps_type b") simp_all
  next
    fix a b c
    assume "(if ps_type a \<noteq> ps_type b then if ps_type a = Directory then - 1 else 1
             else lc (ps_name a) (ps_name b)) \<le> 0
        \<and> (if ps_type b \<noteq> ps_type c then if ps_type b = Directory then - 1 else 1
             else lc (ps_name b) (ps_name c)) \<le> 0"
    then show "(if ps_type a \<noteq> ps_type c then if ps_type a = Directory then - 1 else 1
             else lc (ps_name a) (ps_name c)) \<le> 0"
      using tr [of "ps_name a" "ps_name b" "ps_name c"]
      by (cases "ps_type a"; cases "ps_type b"; cases "ps_type c") simp_all
  qed
qed

lemma sorted_dirs_first:
  "sorted_wrt (\<lambda>a b. compare_nodes lc a b \<le> 0) cs \<Longrightarrow>
   cs = filter (\<lambda>c. ps_type c = Directory) cs @ filter (\<lambda>c. ps_type c = File) cs"
proof (induction cs)
  case Nil
  then show ?case by simp
next
  case (Cons x xs)
  then have ih: "xs = filter (\<lambda>c. ps_type c = Directory) xs @ filter (\<lambda>c. ps_type c = File) xs"
    by simp
  show ?case
  proof (cases "ps_type x")
    case Directory
    then show ?thesis using ih by simp
  next
    case File
    have "\<forall>y\<in>set xs. ps_type y = File"
    proof
      fix y assume "y \<in> set xs"
      then have "compare_nodes lc x y \<le> 0" using Cons.prems by simp
      then show "ps_type y = File"
        using File by (cases "ps_type y") (simp_all add: compare_nodes_def)
    qed
    then have "filter (\<lambda>c. ps_type c = Directory) xs = []" "filter (\<lambda>c. ps_type c = File) xs = xs"
      by (auto simp: filter_empty_conv filter_id_conv)
    then show ?thesis using File by simp
  qed
qed

lemma sorted_within_kind:
  assumes "sorted_wrt (\<lambda>a b. compare_nodes lc a b \<le> 0) cs"
  shows "sorted_wrt (\<lambda>a b. lc (ps_name a) (ps_name b) \<le> 0) (filter (\<lambda>c. ps_type c = t) cs)"
proof -
  have "sorted_wrt (\<lambda>a b. compare_nodes lc a b \<le> 0) (filter (\<lambda>c. ps_type c = t) cs)"
    using assms by (rule sorted_wrt_filter)
  then show ?thesis
    by (rule sorted_wrt_mono_rel [rotated]) (simp add: compare_nodes_def)
qed

lemma children_sorted_array_sort:
  assumes "consistent_comparator lc"
  shows "children_sorted lc (array_sort (compare_nodes lc) cs)"
  unfolding children_sorted_def
  using sorted_array_sort [OF consistent_compare_nodes [OF assms], of cs]
  by (intro conjI sorted_dirs_first sorted_within_kind)

lemma buildFileTree_sorted_aux:
  shows "consistent_comparator lc \<Longrightarrow> (walk_stats_ok n \<longrightarrow> (\<exists>ps. buildFileTree lc basePath rel n = Inr ps \<and> tree_sorted lc ps))"
    and "consistent_comparator lc \<Longrightarrow> (list_all (\<lambda>entry. hidden_entry (entry_name entry) \<or> entry_name entry \<in> set skip_dirs
                         \<or> walk_stats_ok entry) es
          \<longrightarrow> (\<exists>cs. buildChildren lc basePath rel es acc = (acc @ cs, None)
                    \<and> list_all (tree_sorted lc) cs))"
proof (induction lc basePath rel n and lc basePath rel es acc rule: buildFileTree_buildChildren.induct)
  case (1 lc basePath rel nm kind st rd rerr entries)
  show ?case
  proof
    assume ok: "walk_stats_ok (FsNode nm kind st rd rerr entries)"
    then obtain stats where st: "st = Inr stats" by (cases st) simp_all
    have iso: "toISOString (mtime stats) = Inr (mtime stats)"
      using ok st by (simp add: toISOString_def)
    show "\<exists>ps. buildFileTree lc basePath rel (FsNode nm kind st rd rerr entries) = Inr ps \<and> tree_sorted lc ps"
    proof (cases "isFile stats \<or> \<not> isDirectory stats \<or> rerr \<noteq> None")
      case True
      then show ?thesis using st iso by (auto simp: Let_def)
    next
      case False
      then have walk: "list_all (\<lambda>entry. hidden_entry (entry_name entry) \<or> entry_name entry \<in> set skip_dirs
                         \<or> walk_stats_ok entry) entries"
        using ok st by simp
      from False have f: "\<not> isFile stats" "isDirectory stats" "rerr = None" by auto
      obtain cs where cs: "buildChildren lc basePath rel entries [] = (cs, None)"
          and srt: "list_all (tree_sorted lc) cs"
        using "1.IH" [OF st iso refl refl refl refl f(1) f(2) f(3)] "1.prems" walk by auto
      have "list_all (tree_sorted lc) (array_sort (compare_nodes lc) cs)"
        using srt by (simp add: list_all_iff set_array_sort)
      then show ?thesis
        using st iso f cs children_sorted_array_sort [OF "1.prems", where cs = cs]
        by (simp add: Let_def)
    qed
  qed
next
  case (2 lc basePath rel children)
  then show ?case by simp
next
  case (3 lc basePath rel entry rest children)
  show ?case
  proof
    assume all: "list_all (\<lambda>entry. hidden_entry (entry_name entry) \<or> entry_name entry \<in> set skip_dirs
                         \<or> walk_stats_ok entry) (entry # rest)"
    then have rest: "list_all (\<lambda>entry. hidden_entry (entry_name entry) \<or> entry_name entry \<in> set skip_dirs
                         \<or> walk_stats_ok entry) rest" by simp
    show "\<exists>cs. buildChildren lc basePath rel (entry # rest) children = (children @ cs, None)
              \<and> list_all (tree_sorted lc) cs"
    proof (cases "hidden_entry (entry_name entry)")
      case True
      then show ?thesis using "3.IH"(1) "3.prems" rest by simp
    next
      case h: False
      show ?thesis
      proof (cases "entry_name entry \<in> set skip_dirs")
        case True
        then show ?thesis using "3.IH"(2) [OF h] "3.prems" rest by simp
      next
        case s: False
        then have "walk_stats_ok entry" using all h by simp
        then obtain child where child: "buildFileTree lc basePath (rel @ [entry_name entry]) entry = Inr child"
            and cs: "tree_sorted lc child"
          using "3.IH"(3) [OF h s] "3.prems" by auto
        obtain cs' where "buildChildren lc basePath rel rest (children @ [child]) = ((children @ [child]) @ cs', None)"
            and "list_all (tree_sorted lc) cs'"
          using "3.IH"(4) [OF h s child] "3.prems" rest by auto
        then show ?thesis using h s child cs by simp
      qed
    qed
  qed
qed

lemma consistent_code_unit_compare: "consistent_comparator code_unit_compare"
  unfolding consistent_comparator_def code_unit_compare_def by auto

text \<open>
  C1 (as amended). When, on every entry the walk visits, \<open>fs.stat\<close> succeeds and reports
  a modification time that is a valid date, and the host's \<open>localeCompare\<close> is a
  consistent comparator (any two names compare one way or the other, transitively), the
  structure resource holds a tree in which, at every level, all directories come before
  all files and each of the two groups is in nondecreasing \<open>localeCompare\<close> order of the
  nodes' names.
\<close>

theorem structure_resource_sorted:
  assumes "consistent_comparator (localeCompare env)"
    and "walk_stats_ok (root env)"
  shows "\<exists>ps. readResource env ''context://project/structure''
                = Inr [\<lparr>rc_uri = ''context://project/structure'', mimeType = ''application/json'',
                        body = StructureBody ps\<rparr>]
              \<and> tree_sorted (localeCompare env) ps"
proof -
  obtain ps where "buildFileTree (localeCompare env) (projectPath env) [] (root env) = Inr ps"
      and "tree_sorted (localeCompare env) ps"
    using buildFileTree_sorted_aux(1) [OF assms(1)] assms(2) by blast
  then show ?thesis
    by (simp add: readResource_def getProjectStructure_def errorHandlingMiddleware_def async_closure_def awaited_def)
qed

theorem structure_resource_sorted_witness:
  "consistent_comparator (localeCompare small_project)
   \<and> walk_stats_ok (root small_project)
   \<and> (\<exists>ps. readResource small_project ''context://project/structure''
                = Inr [\<lparr>rc_uri = ''context://project/structure'', mimeType = ''application/json'',
                        body = StructureBody ps\<rparr>]
              \<and> tree_sorted (localeCompare small_project) ps)"
proof -
  have h1: "consistent_comparator (localeCompare small_project)"
    by (simp add: small_project_def project_def consistent_code_unit_compare)
  have h2: "walk_stats_ok (root small_project)"
    by (simp add: small_project_def project_def folder_def regular_file_def hidden_entry_def
        startsWith_def skip_dirs_def valid_date_def)
  show ?thesis
    using h1 h2 structure_resource_sorted [OF h1 h2] by blast
qed

lemma collating_compare_B_a: "collating_compare ''B.txt'' ''a.txt'' = 1"
  by (simp add: collating_compare_def ascii_toLowerCase_def lower_char_def less_char_def)

lemma code_unit_compare_a_B: "code_unit_compare ''a.txt'' ''B.txt'' = 1"
  by (simp add: code_unit_compare_def less_char_def)

text \<open>
  C1 as stated fails, in two ways. With a dangling symbolic link listed after a file and a
  directory, the call for the link throws, the surrounding \<open>try\<close> block is left before
  the sort, and the root keeps the file before the directory, even on a host whose
  \<open>localeCompare\<close> is the case-sensitive code-unit order the claim names. And on a host
  whose \<open>localeCompare\<close> collates without regard to case, \<open>a.txt\<close> is placed before
  \<open>B.txt\<close>, which is not the case-sensitive order.
\<close>

theorem structure_resource_sorted_counterexample:
  "readResource dangling_project ''context://project/structure''
     = Inr [\<lparr>rc_uri = ''context://project/structure'', mimeType = ''application/json'',
             body = StructureBody
               (ProjectStructure [] Directory ''project'' None None
                  (Some [ProjectStructure ''a.txt'' File ''a.txt'' (Some ''.txt'') (Some 7) None 0,
                         ProjectStructure ''lib'' Directory ''lib'' None None (Some []) 0])
                  0)\<rparr>]
   \<and> \<not> tree_sorted code_unit_compare
        (ProjectStructure [] Directory ''project'' None None
           (Some [ProjectStructure ''a.txt'' File ''a.txt'' (Some ''.txt'') (Some 7) None 0,
                  ProjectStructure ''lib'' Directory ''lib'' None None (Some []) 0])
           0)
   \<and> readResource mixed_case_project ''context://project/structure''
     = Inr [\<lparr>rc_uri = ''context://project/structure'', mimeType = ''application/json'',
             body = StructureBody
               (ProjectStructure [] Directory ''project'' None None
                  (Some [ProjectStructure ''a.txt'' File ''a.txt'' (Some ''.txt'') (Some 1) None 0,
                         ProjectStructure ''B.txt'' File ''B.txt'' (Some ''.txt'') (Some 1) None 0])
                  0)\<rparr>]
   \<and> \<not> tree_sorted code_unit_compare
        (ProjectStructure [] Directory ''project'' None None
           (Some [ProjectStructure ''a.txt'' File ''a.txt'' (Some ''.txt'') (Some 1) None 0,
                  ProjectStructure ''B.txt'' File ''B.txt'' (Some ''.txt'') (Some 1) None 0])
           0)"
  by (simp add: readResource_def getProjectStructure_def errorHandlingMiddleware_def async_closure_def awaited_def
      dangling_project_def mixed_case_project_def project_def folder_def regular_file_def
      broken_link_def hidden_entry_def startsWith_def skip_dirs_def array_sort_def extname_def
      last_component_def children_sorted_def compare_nodes_def collating_compare_B_a
      code_unit_compare_a_B toISOString_def valid_date_def Let_def)

section \<open>Properties of the resource provider\<close>

text \<open>
  C5. A URI that is none of the three resource URIs and does not start with
  \<open>context://file/\<close> makes \<open>readResource\<close> fail with the NotFound classification: the
  message starts with "Resource not found" and is not the "Internal server error" one.
\<close>

theorem readResource_unknown_uri:
  assumes "uri \<notin> {''context://project/overview'', ''context://project/structure'',
                   ''context://project/dependencies''}"
    and "\<not> startsWith uri ''context://file/''"
  shows "readResource env uri = Inl (Error (''Resource not found: '' @ ''Resource not found: '' @ uri))
       \<and> readResource env uri \<noteq> Inl (Error ''Internal server error'')"
  using assms
  by (simp add: readResource_def errorHandlingMiddleware_def async_closure_def awaited_def NotFoundError_def Error_def)

theorem readResource_unknown_uri_witness:
  "''context://project/history'' \<notin> {''context://project/overview'', ''context://project/structure'',
                   ''context://project/dependencies''}
   \<and> \<not> startsWith ''context://project/history'' ''context://file/''
   \<and> readResource small_project ''context://project/history''
       = Inl (Error ''Resource not found: Resource not found: context://project/history'')
   \<and> readResource small_project ''context://project/history'' \<noteq> Inl (Error ''Internal server error'')"
proof -
  have h1: "''context://project/history'' \<notin> {''context://project/overview'',
      ''context://project/structure'', ''context://project/dependencies''}"
    by simp
  have h2: "\<not> startsWith ''context://project/history'' ''context://file/''"
    by (simp add: startsWith_def)
  show ?thesis
    using h1 h2 readResource_unknown_uri [OF h1 h2, of small_project] by (simp add: Error_def)
qed

text \<open>
  C4 as stated fails: with the one dependency declared and no lock file in the project
  directory, the dependency resource reports the manager \<open>unknown\<close> and a total of 0, not 1.
\<close>

theorem dependencies_resource_counterexample:
  "readResource unlocked_project ''context://project/dependencies''
     = Inr [\<lparr>rc_uri = ''context://project/dependencies'', mimeType = ''application/json'',
             body = DependenciesBody
               \<lparr>pd_packageManager = ''unknown'', pd_dependencies = [], pd_devDependencies = [],
                totalCount = 0, lockFileExists = False\<rparr>\<rparr>]"
  by (simp add: readResource_def errorHandlingMiddleware_def async_closure_def awaited_def getProjectDependencies_def
      detectPackageManager_def fs_readdir_def unlocked_project_def project_def folder_def
      regular_file_def Let_def)

text \<open>
  C4 (as amended). For a manifest that declares exactly one production dependency and no
  development dependency: when \<open>package-lock.json\<close> is listed in the project directory the
  dependency resource reports the manager \<open>npm\<close>, a total of 1, that dependency as the one
  production dependency and no development dependency; when the directory lists none of
  the lock or manifest files the detection knows, it reports the manager \<open>unknown\<close>, a
  total of 0, empty dependency lists and no lock file.
\<close>

theorem dependencies_resource_one_dependency:
  assumes "packageJson env = Inr pkg"
    and "dependencies pkg = Some [d]"
    and "devDependencies pkg \<in> {None, Some []}"
    and "fs_readdir (root env) = Inr entries"
  shows "(''package-lock.json'' \<in> set (map entry_name entries) \<longrightarrow>
           readResource env ''context://project/dependencies''
             = Inr [\<lparr>rc_uri = ''context://project/dependencies'', mimeType = ''application/json'',
                     body = DependenciesBody
                       \<lparr>pd_packageManager = ''npm'',
                        pd_dependencies = [\<lparr>dep_name = fst d, dep_version = snd d,
                                            requestedVersion = snd d, dep_type = production\<rparr>],
                        pd_devDependencies = [],
                        totalCount = 1,
                        lockFileExists = (lookup env ''package-lock.json'' \<noteq> None)\<rparr>\<rparr>])
       \<and> (set (map entry_name entries)
            \<inter> {''package-lock.json'', ''yarn.lock'', ''pnpm-lock.yaml'', ''Cargo.toml'',
               ''requirements.txt'', ''Pipfile'', ''go.mod'', ''Gemfile'', ''composer.json''} = {} \<longrightarrow>
           readResource env ''context://project/dependencies''
             = Inr [\<lparr>rc_uri = ''context://project/dependencies'', mimeType = ''application/json'',
                     body = DependenciesBody
                       \<lparr>pd_packageManager = ''unknown'', pd_dependencies = [],
                        pd_devDependencies = [], totalCount = 0, lockFileExists = False\<rparr>\<rparr>])"
proof (intro conjI impI)
  assume "''package-lock.json'' \<in> set (map entry_name entries)"
  then have "detectPackageManager (root env) = ''npm''"
    using assms(4) by (simp add: detectPackageManager_def)
  then show "readResource env ''context://project/dependencies''
             = Inr [\<lparr>rc_uri = ''context://project/dependencies'', mimeType = ''application/json'',
                     body = DependenciesBody
                       \<lparr>pd_packageManager = ''npm'',
                        pd_dependencies = [\<lparr>dep_name = fst d, dep_version = snd d,
                                            requestedVersion = snd d, dep_type = production\<rparr>],
                        pd_devDependencies = [],
                        totalCount = 1,
                        lockFileExists = (lookup env ''package-lock.json'' \<noteq> None)\<rparr>\<rparr>]"
    using assms(1,2,3)
    by (auto simp: readResource_def errorHandlingMiddleware_def async_closure_def awaited_def
        getProjectDependencies_def analyzeNpmDependencies_def to_dependency_def Let_def)
next
  assume "set (map entry_name entries)
            \<inter> {''package-lock.json'', ''yarn.lock'', ''pnpm-lock.yaml'', ''Cargo.toml'',
               ''requirements.txt'', ''Pipfile'', ''go.mod'', ''Gemfile'', ''composer.json''} = {}"
  then have "detectPackageManager (root env) = ''unknown''"
    using assms(4) by (simp add: detectPackageManager_def Let_def)
  then show "readResource env ''context://project/dependencies''
             = Inr [\<lparr>rc_uri = ''context://project/dependencies'', mimeType = ''application/json'',
                     body = DependenciesBody
                       \<lparr>pd_packageManager = ''unknown'', pd_dependencies = [],
                        pd_devDependencies = [], totalCount = 0, lockFileExists = False\<rparr>\<rparr>]"
    by (simp add: readResource_def errorHandlingMiddleware_def async_closure_def awaited_def
        getProjectDependencies_def Let_def)
qed

theorem dependencies_resource_one_dependency_witness:
  "readResource locked_project ''context://project/dependencies''
     = Inr [\<lparr>rc_uri = ''context://project/dependencies'', mimeType = ''application/json'',
             body = DependenciesBody
               \<lparr>pd_packageManager = ''npm'',
                pd_dependencies = [\<lparr>dep_name = ''lodash'', dep_version = ''^4.0.0'',
                                    requestedVersion = ''^4.0.0'', dep_type = production\<rparr>],
                pd_devDependencies = [],
                totalCount = 1,
                lockFileExists = True\<rparr>\<rparr>]
   \<and> readResource unlocked_project ''context://project/dependencies''
     = Inr [\<lparr>rc_uri = ''context://project/dependencies'', mimeType = ''application/json'',
             body = DependenciesBody
               \<lparr>pd_packageManager = ''unknown'', pd_dependencies = [],
                pd_devDependencies = [], totalCount = 0, lockFileExists = False\<rparr>\<rparr>]"
proof -
  have m: "dependencies lodash_manifest = Some [(''lodash'', ''^4.0.0'')]"
     "devDependencies lodash_manifest \<in> {None, Some []}"
    by (simp_all add: lodash_manifest_def)
  have l1: "packageJson locked_project = Inr lodash_manifest"
    by (simp add: locked_project_def project_def)
  have l2: "fs_readdir (root locked_project)
      = Inr [regular_file ''package-lock.json'' 900 [], regular_file ''package.json'' 60 []]"
    by (simp add: locked_project_def project_def folder_def fs_readdir_def)
  have l3: "lookup locked_project ''package-lock.json'' \<noteq> None"
    by (simp add: locked_project_def project_def)
  have u1: "packageJson unlocked_project = Inr lodash_manifest"
    by (simp add: unlocked_project_def project_def)
  have u2: "fs_readdir (root unlocked_project) = Inr [regular_file ''package.json'' 60 []]"
    by (simp add: unlocked_project_def project_def folder_def fs_readdir_def)
  show ?thesis
    using l3 dependencies_resource_one_dependency [OF l1 m l2]
          dependencies_resource_one_dependency [OF u1 m u2]
    by (simp add: regular_file_def)
qed

section \<open>Properties of the tool executor\<close>

text \<open>
  C3. For a manifest whose \<open>dependencies\<close> map has N entries and whose
  \<open>devDependencies\<close> map has M entries, \<open>analyze_dependencies\<close> reports
  \<open>totalDependencies\<close> N + M when called with \<open>includeDevDependencies\<close> true, and N when
  called with it false.
\<close>

theorem analyze_dependencies_total:
  assumes "packageJson env = Inr pkg"
    and "dependencies pkg = Some deps"
    and "devDependencies pkg = Some devs"
  shows "(includeDevDependencies (as_AnalyzeDependenciesParams parameters) = Some True \<longrightarrow>
           (\<exists>format r. executeTool env ''analyze_dependencies'' parameters = Inr (DependencyReport format r)
                      \<and> totalDependencies r = length deps + length devs))
       \<and> (includeDevDependencies (as_AnalyzeDependenciesParams parameters) = Some False \<longrightarrow>
           (\<exists>format r. executeTool env ''analyze_dependencies'' parameters = Inr (DependencyReport format r)
                      \<and> totalDependencies r = length deps))"
  using assms
  by (simp add: executeTool_def errorHandlingMiddleware_def async_closure_def awaited_def analyzeDependencies_def Let_def)

theorem analyze_dependencies_total_witness:
  "(\<exists>format r. executeTool five_project ''analyze_dependencies'' (with_includeDevDependencies True)
                  = Inr (DependencyReport format r)
              \<and> totalDependencies r = 5)
   \<and> (\<exists>format r. executeTool five_project ''analyze_dependencies'' (with_includeDevDependencies False)
                  = Inr (DependencyReport format r)
              \<and> totalDependencies r = 2)"
proof -
  have p: "packageJson five_project = Inr five_manifest"
    by (simp add: five_project_def project_def)
  have d: "dependencies five_manifest = Some [(''express'', ''^4.18.0''), (''lodash'', ''^4.0.0'')]"
    by (simp add: five_manifest_def)
  have v: "devDependencies five_manifest = Some [(''jest'', ''^29.0.0''), (''eslint'', ''^8.0.0''),
                              (''typescript'', ''^5.0.0'')]"
    by (simp add: five_manifest_def)
  show ?thesis
    using analyze_dependencies_total [OF p d v, of "with_includeDevDependencies True"]
          analyze_dependencies_total [OF p d v, of "with_includeDevDependencies False"]
    by (simp add: with_includeDevDependencies_def no_parameters_def eval_nat_numeral)
qed



section \<open>Properties of the search\<close>

subsection \<open>Files above the size ceiling\<close>

lemma replace_large_content_sel [simp]:
  "entry_name (replace_large_content r n) = entry_name n"
  "entry_kind (replace_large_content r n) = entry_kind n"
  "fs_stat (replace_large_content r n) = fs_stat n"
  by (cases n; simp)+

lemma search_file_replace_large:
  "search_file lower p q opts (replace_large_content r n) res = search_file lower p q opts n res"
  by (cases n) (simp add: search_file_def Let_def split: sum.splits)

lemma searchInDirectory_replace_large:
  shows "searchInDirectory lower rel q opts (replace_large_content r n) res = searchInDirectory lower rel q opts n res"
    and "searchInDirectory_entries lower rel q opts (map (replace_large_content r) es) res
         = searchInDirectory_entries lower rel q opts es res"
proof (induction lower rel q opts n res and lower rel q opts es res
    rule: searchInDirectory_searchInDirectory_entries.induct)
  case (1 lower rel query options nm kind st rd rerr entries result)
  then show ?case by (simp split: option.splits)
next
  case (2 lower rel query options result)
  then show ?case by simp
next
  case (3 lower rel query options entry rest result)
  then show ?case by (simp add: search_file_replace_large)
qed


lemma results_push_match [simp]:
  "results (push_match m r) = results r @ [m]"
  "totalResults (push_match m r) = totalResults r + 1"
  by (simp_all add: push_match_def)

subsection \<open>Every search step only appends matches\<close>





subsection \<open>A full result list stops the search\<close>




subsection \<open>The counter follows the list\<close>





subsection \<open>A smaller bound truncates the result of a larger one\<close>







subsection \<open>The size ceiling and the result bound\<close>

text \<open>
  C2. A file whose \<open>stat\<close> reports more than 1 MiB is rejected by the file resource with
  the NotFound classification; the search adds nothing for it beyond a match of its name,
  which carries no content; and the outcome of \<open>search_project\<close> is the same whatever
  such files hold, so no content of theirs is ever returned.
\<close>

theorem large_file_never_returned:
  "(lookup env p = Some node \<and> fs_stat node = Inr stats \<and> st_size stats > 1024 * 1024 \<longrightarrow>
      readResource env (''context://file/'' @ p)
        = Inl (Error (''Resource not found: '' @ ''Cannot read file: '' @ p)))
   \<and> (fs_stat entry = Inr stats \<and> st_size stats > 1024 * 1024 \<longrightarrow>
      set (results (search_file lower path q opts entry result))
        \<subseteq> set (results result)
          \<union> {\<lparr>match_file = path, match_line = None, match_content = None, match_kind = filename\<rparr>})
   \<and> executeTool (env\<lparr>root := replace_large_content r (root env)\<rparr>) ''search_project'' parameters
       = executeTool env ''search_project'' parameters"
proof (intro conjI impI)
  assume "lookup env p = Some node \<and> fs_stat node = Inr stats \<and> st_size stats > 1024 * 1024"
  then show "readResource env (''context://file/'' @ p)
        = Inl (Error (''Resource not found: '' @ ''Cannot read file: '' @ p))"
    by (simp add: readResource_def errorHandlingMiddleware_def async_closure_def awaited_def getFileContent_def startsWith_def
        NotFoundError_def Let_def)
next
  assume "fs_stat entry = Inr stats \<and> st_size stats > 1024 * 1024"
  then show "set (results (search_file lower path q opts entry result))
        \<subseteq> set (results result)
          \<union> {\<lparr>match_file = path, match_line = None, match_content = None, match_kind = filename\<rparr>}"
    by (auto simp: search_file_def Let_def)
next
  show "executeTool (env\<lparr>root := replace_large_content r (root env)\<rparr>) ''search_project'' parameters
       = executeTool env ''search_project'' parameters"
    by (simp add: executeTool_def searchProject_def Let_def searchInDirectory_replace_large
        split: jsval.splits)
qed


theorem large_file_never_returned_witness:
  "lookup large_project ''dump.log'' = Some large_file
   \<and> fs_stat large_file = Inr (Stats False True 2097152 0)
   \<and> st_size (Stats False True 2097152 0) > 1024 * 1024
   \<and> readResource large_project ''context://file/dump.log''
       = Inl (Error ''Resource not found: Cannot read file: dump.log'')
   \<and> set (results (search_file ascii_toLowerCase ''dump.log'' ''dump''
              \<lparr>opt_filePattern = None, opt_maxResults = 10, opt_caseSensitive = False,
               opt_includeContent = True\<rparr> large_file
              \<lparr>sr_query = ''dump'', totalResults = 0, results = [], searchTime = 0\<rparr>))
       \<subseteq> {\<lparr>match_file = ''dump.log'', match_line = None, match_content = None,
            match_kind = filename\<rparr>}
   \<and> executeTool (large_project\<lparr>root := replace_large_content (Inr ''bar'') (root large_project)\<rparr>)
         ''search_project'' (search_for ''foo'' 10)
       = executeTool large_project ''search_project'' (search_for ''foo'' 10)"
proof -
  have h1: "lookup large_project ''dump.log'' = Some large_file
     \<and> fs_stat large_file = Inr (Stats False True 2097152 0)
     \<and> st_size (Stats False True 2097152 0) > 1024 * 1024"
    by (simp add: large_project_def project_def large_file_def regular_file_def)
  have h2: "fs_stat large_file = Inr (Stats False True 2097152 0)
     \<and> st_size (Stats False True 2097152 0) > 1024 * 1024"
    using h1 by simp
  show ?thesis
    using h1 h2
      large_file_never_returned [where env = large_project and p = "''dump.log''"
        and node = large_file and stats = "Stats False True 2097152 0" and entry = large_file
        and lower = ascii_toLowerCase and path = "''dump.log''" and q = "''dump''"
        and opts = "\<lparr>opt_filePattern = None, opt_maxResults = 10, opt_caseSensitive = False,
               opt_includeContent = True\<rparr>"
        and result = "\<lparr>sr_query = ''dump'', totalResults = 0, results = [], searchTime = 0\<rparr>"
        and r = "Inr ''bar''" and parameters = "search_for ''foo'' 10"]
    by simp
qed

subsection \<open>The query is kept\<close>





subsection \<open>Every match is a match of the query\<close>






subsection \<open>The bound of one result\<close>








section \<open>Failures of the tool executor\<close>

lemma analyzeDependencies_failure:
  "(\<exists>out. analyzeDependencies env p = Inr out)
   \<or> analyzeDependencies env p
       = Inl (ValidationError ''Unable to analyze dependencies. Ensure package.json exists and is valid.'')"
  by (cases "packageJson env") (simp_all add: analyzeDependencies_def Let_def)

lemma navigateStructure_failure:
  "(\<exists>out. navigateStructure env p = Inr out)
   \<or> navigateStructure env p
       = Inl (NotFoundError (''Path not found or inaccessible: ''
                @ (case nav_path p of Some path \<Rightarrow> path | None \<Rightarrow> [])))"
  by (auto simp: navigateStructure_def Let_def split: option.splits sum.splits)

lemma searchProject_failure:
  "(\<exists>out. searchProject env p = Inr out)
   \<or> searchProject env p = Inl (ValidationError ''Search query is required'')"
  by (simp add: searchProject_def Let_def)


text \<open>
  C7 (as amended). Whatever the file system does, a tool call either succeeds or fails
  with one of four classified messages: \<open>analyze_dependencies\<close> with the fixed
  Validation message, \<open>search_project\<close> with the Validation message for a missing query,
  \<open>navigate_structure\<close> with the NotFound message naming the requested path, and an
  unknown tool with the NotFound message naming it. No error of the file system reaches
  the caller.
\<close>

theorem executeTool_failures:
  "(\<exists>out. executeTool env toolName parameters = Inr out)
   \<or> (toolName = ''analyze_dependencies''
       \<and> executeTool env toolName parameters
           = Inl (Error (''Invalid request: ''
               @ ''Unable to analyze dependencies. Ensure package.json exists and is valid.'')))
   \<or> (toolName = ''search_project''
       \<and> executeTool env toolName parameters
           = Inl (Error (''Invalid request: '' @ ''Search query is required'')))
   \<or> (toolName = ''navigate_structure''
       \<and> executeTool env toolName parameters
           = Inl (Error (''Resource not found: '' @ ''Path not found or inaccessible: ''
               @ (case nav_path (as_NavigateStructureParams parameters) of
                    Some path \<Rightarrow> path | None \<Rightarrow> []))))
   \<or> (toolName \<notin> {''analyze_dependencies'', ''get_recent_changes'', ''navigate_structure'',
                      ''search_project''}
       \<and> executeTool env toolName parameters
           = Inl (Error (''Resource not found: '' @ ''Unknown tool: '' @ toolName)))"
proof -
  consider (a) "toolName = ''analyze_dependencies''" | (g) "toolName = ''get_recent_changes''"
    | (n) "toolName = ''navigate_structure''" | (s) "toolName = ''search_project''"
    | (u) "toolName \<notin> {''analyze_dependencies'', ''get_recent_changes'', ''navigate_structure'',
                      ''search_project''}"
    by auto
  then show ?thesis
  proof cases
    case a
    then show ?thesis
      using analyzeDependencies_failure [of env "as_AnalyzeDependenciesParams parameters"]
      by (auto simp: executeTool_def errorHandlingMiddleware_def async_closure_def awaited_def ValidationError_def)
  next
    case g
    then show ?thesis
      by (simp add: executeTool_def errorHandlingMiddleware_def async_closure_def awaited_def getRecentChanges_def)
  next
    case n
    then show ?thesis
      using navigateStructure_failure [of env "as_NavigateStructureParams parameters"]
      by (auto simp: executeTool_def errorHandlingMiddleware_def async_closure_def awaited_def NotFoundError_def)
  next
    case s
    show ?thesis
    proof (cases "raw parameters ''query''")
      case (JString q)
      then show ?thesis
        using s searchProject_failure [of env "search_params_of (raw parameters) q"]
        by (auto simp: executeTool_def errorHandlingMiddleware_def async_closure_def awaited_def ValidationError_def)
    qed (simp_all add: s executeTool_def errorHandlingMiddleware_def async_closure_def awaited_def ValidationError_def)
  next
    case u
    then show ?thesis
      by (simp add: executeTool_def errorHandlingMiddleware_def async_closure_def awaited_def NotFoundError_def)
  qed
qed

theorem executeTool_failures_witness:
  "executeTool large_project ''analyze_dependencies'' no_parameters
     = Inl (Error ''Invalid request: Unable to analyze dependencies. Ensure package.json exists and is valid.'')
   \<and> executeTool large_project ''search_project'' no_parameters
     = Inl (Error ''Invalid request: Search query is required'')
   \<and> executeTool dangling_project ''navigate_structure'' no_parameters
     = Inl (Error ''Resource not found: Path not found or inaccessible: '')
   \<and> executeTool large_project ''unknown_tool'' no_parameters
     = Inl (Error ''Resource not found: Unknown tool: unknown_tool'')"
proof -
  have a: "\<not> (\<exists>out. executeTool large_project ''analyze_dependencies'' no_parameters = Inr out)"
    by (simp add: executeTool_def errorHandlingMiddleware_def async_closure_def awaited_def
        analyzeDependencies_def large_project_def project_def no_manifest_def no_parameters_def
        ValidationError_def Let_def)
  have s: "\<not> (\<exists>out. executeTool large_project ''search_project'' no_parameters = Inr out)"
    by (simp add: executeTool_def errorHandlingMiddleware_def async_closure_def awaited_def no_parameters_def ValidationError_def)
  have n: "\<not> (\<exists>out. executeTool dangling_project ''navigate_structure'' no_parameters = Inr out)"
    by (simp add: executeTool_def errorHandlingMiddleware_def async_closure_def awaited_def navigateStructure_def no_parameters_def
      dangling_project_def project_def folder_def regular_file_def broken_link_def fs_readdir_def
      hidden_entry_def startsWith_def skip_dirs_def NotFoundError_def toISOString_def
      valid_date_def Let_def)
  have u: "\<not> (\<exists>out. executeTool large_project ''unknown_tool'' no_parameters = Inr out)"
    by (simp add: executeTool_def errorHandlingMiddleware_def async_closure_def awaited_def NotFoundError_def)
  show ?thesis
    using a s n u
      executeTool_failures [of large_project "''analyze_dependencies''" no_parameters]
      executeTool_failures [of large_project "''search_project''" no_parameters]
      executeTool_failures [of dangling_project "''navigate_structure''" no_parameters]
      executeTool_failures [of large_project "''unknown_tool''" no_parameters]
    by (simp add: no_parameters_def)
qed


text \<open>
  C7 as stated fails: a \<open>stat\<close> that rejects while \<open>navigate_structure\<close> lists the
  project directory is re-thrown as a NotFoundError, so the caller sees the
  "Resource not found" classification, not the Validation one.
\<close>

theorem executeTool_failures_counterexample:
  "executeTool dangling_project ''navigate_structure'' no_parameters
     = Inl (Error ''Resource not found: Path not found or inaccessible: '')
   \<and> \<not> startsWith ''Resource not found: Path not found or inaccessible: '' ''Invalid request''"
  by (simp add: executeTool_def errorHandlingMiddleware_def async_closure_def awaited_def navigateStructure_def no_parameters_def
      dangling_project_def project_def folder_def regular_file_def broken_link_def fs_readdir_def
      hidden_entry_def startsWith_def skip_dirs_def NotFoundError_def toISOString_def
      valid_date_def Let_def)



end
